theory Spec2Isabelle
  imports Main
begin

section \<open>Strings\<close>

text \<open>
  JavaScript strings are modelled as \<^typ>\<open>string\<close>. Case conversion is modelled on the
  ASCII letters; every other character is left as it is. The line terminators of the
  regular-expression dot are the characters 10 and 13.
\<close>

definition lowerLetters :: string where
  "lowerLetters = ''abcdefghijklmnopqrstuvwxyz''"

definition upperLetters :: string where
  "upperLetters = ''ABCDEFGHIJKLMNOPQRSTUVWXYZ''"

definition toUpperChar :: "char \<Rightarrow> char" where
  "toUpperChar c = (case map_of (zip lowerLetters upperLetters) c of Some u \<Rightarrow> u | None \<Rightarrow> c)"

definition toLowerChar :: "char \<Rightarrow> char" where
  "toLowerChar c = (case map_of (zip upperLetters lowerLetters) c of Some l \<Rightarrow> l | None \<Rightarrow> c)"

definition toLowerCase :: "string \<Rightarrow> string" where
  "toLowerCase s = map toLowerChar s"

text \<open>\<open>s.match(/pat/)\<close> for a pattern that is a literal: does \<open>pat\<close> occur in \<open>s\<close>.\<close>

fun containsStr :: "string \<Rightarrow> string \<Rightarrow> bool" where
  "containsStr pat [] = (pat = [])"
| "containsStr pat (c # cs) = (take (length pat) (c # cs) = pat \<or> containsStr pat cs)"

text \<open>
  \<open>s.replace(pat, rep)\<close> with a literal pattern (or a regular expression that is a
  literal, without the global flag): the leftmost occurrence is replaced.
\<close>

fun replaceFirst :: "string \<Rightarrow> string \<Rightarrow> string \<Rightarrow> string" where
  "replaceFirst pat rep [] = (if pat = [] then rep else [])"
| "replaceFirst pat rep (c # cs) =
     (if take (length pat) (c # cs) = pat then rep @ drop (length pat) (c # cs)
      else c # replaceFirst pat rep cs)"

text \<open>
  \<open>s.replace(/\./g, rep)\<close>: every dot is replaced. Replacement patterns (a \<open>$\<close> in
  \<open>rep\<close>) are not modelled.
\<close>

definition replaceDots :: "string \<Rightarrow> string \<Rightarrow> string" where
  "replaceDots rep s = concat (map (\<lambda>c. if c = CHR ''.'' then rep else [c]) s)"

text \<open>
  \<open>s.replace(/\/+$/, '')\<close>: the matcher tries each start position from the left; at a
  position it succeeds when the rest of the string is a non-empty run of slashes, and
  that run is replaced by the empty string.
\<close>

fun stripTrailingSlashes :: "string \<Rightarrow> string" where
  "stripTrailingSlashes [] = []"
| "stripTrailingSlashes (c # cs) =
     (if list_all (\<lambda>d. d = CHR ''/'') (c # cs) then []
      else c # stripTrailingSlashes cs)"

section \<open>Options and errors\<close>

text \<open>The options after the defaults have been merged in (\<open>extend\<close>).\<close>

record options =
  ngModuleName :: string
  apiUrl :: string
  includeCommonModules :: bool
  namespaceModels :: bool
  namespaceCommonModels :: bool
  namespaceDelimiter :: string
  modelsToIgnore :: "string list"
  comments :: bool
  includeSchema :: bool

definition defaultOptions :: options where
  "defaultOptions =
     \<lparr> ngModuleName = ''lbServices'', apiUrl = ''/'', includeCommonModules = True,
       namespaceModels = False, namespaceCommonModels = False,
       namespaceDelimiter = ''.'', modelsToIgnore = [], comments = False,
       includeSchema = False \<rparr>"

datatype error = TypeError | UnsupportedDelimiter

text \<open>
  \<open>getFormattedModelName\<close>: \<open>modelName[0]\<close> is undefined for the empty name, and the
  call of \<open>toUpperCase\<close> on it raises.
\<close>

definition getFormattedModelName :: "string \<Rightarrow> options \<Rightarrow> error + string" where
  "getFormattedModelName modelName opts =
     (case modelName of
        [] \<Rightarrow> Inl TypeError
      | c # cs \<Rightarrow>
          (let resourceModelName = toUpperChar c # cs in
           Inr (if namespaceModels opts
                then ngModuleName opts @ namespaceDelimiter opts @ resourceModelName
                else resourceModelName)))"

section \<open>Data model\<close>

record http_spec =
  source :: "string option"

text \<open>A parameter description: \<open>arg.arg\<close> is its name, \<open>arg.http\<close> may be missing.\<close>

record accept_arg =
  arg :: string
  http :: "http_spec option"

record ctor_desc =
  ctor_accepts :: "accept_arg list"

datatype desc = DescString string | DescArray "string list"

datatype internal_note = NoteUndefined | NoteFalse | NoteString string

text \<open>The properties of a method object that the generator assigns.\<close>

datatype property =
  PName | PIsReturningArray | PAccepts | PResourceParams | PHasResourceParams
  | PDescription | PInternal | PDeprecated

text \<open>
  Method objects live in a heap (a list, the address is the index), because
  \<open>Object.create(method)\<close> makes an object that delegates to \<open>method\<close>: a property
  that the new object has not been assigned itself is read from its prototype, at the
  time of the read. \<open>own\<close> holds the properties assigned to the object itself; for a
  property outside \<open>own\<close> of an object with a prototype, the field of the record is
  not looked at. \<open>m_restClass_ctor\<close> is \<open>method.restClass.ctor\<close> and \<open>m_isStatic\<close> is
  \<open>method.sharedMethod.isStatic\<close>; the generator never assigns them, so a clone's field
  is its prototype's. \<open>m_isReturningArray\<close> is the result of \<open>isReturningArray()\<close>.
  In \<open>m_resourceParams\<close>, \<open>m_description\<close> and \<open>m_deprecated\<close>, \<open>None\<close> is undefined;
  \<open>m_hasResourceParams\<close> is false while the property is undefined.
\<close>

record method_obj =
  proto :: "nat option"
  own :: "property set"
  m_name :: string
  m_isReturningArray :: bool
  m_accepts :: "accept_arg list"
  m_restClass_ctor :: "ctor_desc option"
  m_isStatic :: bool
  m_resourceParams :: "accept_arg list option"
  m_hasResourceParams :: bool
  m_description :: "desc option"
  m_internal :: internal_note
  m_deprecated :: "bool option"

type_synonym heap = "method_obj list"

text \<open>
  Reading a property. \<open>Object.create\<close> puts the new object above its prototype, so
  prototype links point to lower addresses; the test \<open>p < a\<close> is there for the
  recursion to end on any heap.
\<close>

function lookup :: "(method_obj \<Rightarrow> 'a) \<Rightarrow> property \<Rightarrow> heap \<Rightarrow> nat \<Rightarrow> 'a" where
  "lookup f t h a =
     (case proto (h ! a) of
        None \<Rightarrow> f (h ! a)
      | Some p \<Rightarrow> if t \<in> own (h ! a) \<or> \<not> p < a then f (h ! a) else lookup f t h p)"
  by pat_completeness auto
termination
  by (relation "measure (\<lambda>(f, t, h, a). a)") auto

declare lookup.simps [simp del]

text \<open>The object on the prototype chain of \<open>a\<close> that holds property \<open>t\<close>.\<close>

function owner :: "property \<Rightarrow> heap \<Rightarrow> nat \<Rightarrow> nat" where
  "owner t h a =
     (case proto (h ! a) of
        None \<Rightarrow> a
      | Some p \<Rightarrow> if t \<in> own (h ! a) \<or> \<not> p < a then a else owner t h p)"
  by pat_completeness auto
termination
  by (relation "measure (\<lambda>(t, h, a). a)") auto

declare owner.simps [simp del]

text \<open>\<open>obj.t = v\<close>: the property becomes the object's own.\<close>

definition assign :: "property \<Rightarrow> (method_obj \<Rightarrow> method_obj) \<Rightarrow> heap \<Rightarrow> nat \<Rightarrow> heap" where
  "assign t upd h a = h[a := (upd (h ! a))\<lparr>own := insert t (own (h ! a))\<rparr>]"

text \<open>\<open>Object.create(a)\<close>: a new object with prototype \<open>a\<close> and no property of its own.\<close>

definition objectCreate :: "heap \<Rightarrow> nat \<Rightarrow> heap \<times> nat" where
  "objectCreate h a = (h @ [(h ! a)\<lparr>proto := Some a, own := {}\<rparr>], length h)"

record scope_desc =
  sc_methods :: "string \<rightharpoonup> nat"
  sc_targetClass :: string

datatype ptype = TypeValue string | TypeFunction "string option" string

record schema_desc =
  schema_name :: string
  schema_properties :: "(string \<times> ptype) list"

text \<open>\<open>c.sharedClass.ctor.settings\<close>, with its \<open>description\<close> (\<open>None\<close> is undefined).\<close>

record ctor_settings =
  s_description :: "desc option"

text \<open>
  A class of the registry. \<open>c_settings\<close> is \<open>c.sharedClass.ctor.settings\<close>, \<open>None\<close> when
  the constructor function of the class has no settings; \<open>c_prototype s\<close> is
  \<open>c.sharedClass.ctor.prototype[s]._targetClass\<close> (\<open>None\<close> when one of the two is
  missing); \<open>c_isUserType\<close> is the result of the test against \<open>app.loopback.User\<close>.
  In \<open>c_scopes\<close>, \<open>None\<close> is undefined and \<open>Some None\<close> is null.
\<close>

record rest_class =
  c_name :: string
  c_ctor :: "ctor_desc option"
  c_settings :: "ctor_settings option"
  c_prototype :: "string \<rightharpoonup> string"
  c_isUserType :: bool
  c_methods :: "nat list"
  c_description :: "desc option"
  c_isUser :: "bool option"
  c_scopes :: "string \<rightharpoonup> scope_desc option"
  c_modelSchema :: "schema_desc option"

text \<open>
  An entry of \<open>app.models\<close>: \<open>sharedClass._swaggerMethods\<close> (the names it holds with a
  truthy value) and \<open>definition.properties\<close>.
\<close>

record app_model =
  swaggerMethods :: "string list option"
  properties :: "(string \<times> ptype) list"

datatype level = Warn | Err

text \<open>
  The application: the classes of the REST adapter (the index is the identity of the
  class object), the heap of method objects, \<open>app.models\<close> and the console.
\<close>

record app_state =
  classes :: "rest_class list"
  heap :: heap
  app_models :: "string \<rightharpoonup> app_model"
  console :: "(level \<times> string) list"

text \<open>
  The result object of \<open>describeModels\<close>: formatted name to class, in insertion order,
  which is the order of \<open>for ... in\<close> for names that are not array indices.
\<close>

type_synonym models = "(string \<times> nat) list"

fun setModel :: "string \<Rightarrow> nat \<Rightarrow> models \<Rightarrow> models" where
  "setModel n c [] = [(n, c)]"
| "setModel n c ((k, v) # ms) = (if k = n then (k, c) # ms else (k, v) # setModel n c ms)"

section \<open>Model collection and method augmentation\<close>

fun joinLines :: "string list \<Rightarrow> string" where
  "joinLines [] = []"
| "joinLines [x] = x"
| "joinLines (x # y # ys) = x @ [CHR 0x0A] @ joinLines (y # ys)"

definition normalizeDescription :: "desc option \<Rightarrow> desc option" where
  "normalizeDescription d =
     (case d of Some (DescArray xs) \<Rightarrow> Some (DescString (joinLines xs)) | _ \<Rightarrow> d)"

text \<open>Lines 176 to 187: the clone of the single method named \<open>create\<close>.\<close>

definition addCreateMany :: "heap \<Rightarrow> nat list \<Rightarrow> heap \<times> nat list" where
  "addCreateMany h ms =
     (let createMethod = filter (\<lambda>a. lookup m_name PName h a = ''create'') ms in
      if length createMethod = 1 then
        (let (h1, createMany) = objectCreate h (createMethod ! 0);
             h2 = assign PName (\<lambda>m. m\<lparr>m_name := ''createMany''\<rparr>) h1 createMany;
             h3 = assign PIsReturningArray (\<lambda>m. m\<lparr>m_isReturningArray := True\<rparr>) h2 createMany
         in (h3, ms @ [createMany]))
      else (h, ms))"

text \<open>
  The test of \<open>findResourceParams\<close>, lines 203 to 205: the parameter has an \<open>http\<close>
  entry, its source is the path, and its name is not \<open>id\<close>.
\<close>

definition isResourceParam :: "accept_arg \<Rightarrow> bool" where
  "isResourceParam x =
     (case http x of None \<Rightarrow> False | Some ht \<Rightarrow> source ht = Some ''path'' \<and> arg x \<noteq> ''id'')"

text \<open>
  \<open>findResourceParams\<close>, lines 202 to 212. The test \<open>!method.resourceParams\<close> reads
  through the prototype chain, and \<open>push\<close> changes the array where it is held.
\<close>

definition findResourceParams :: "nat \<Rightarrow> accept_arg \<Rightarrow> heap \<Rightarrow> heap" where
  "findResourceParams a x h =
     (if isResourceParam x then
        (let h1 = (if lookup m_resourceParams PResourceParams h a = None
                   then assign PHasResourceParams (\<lambda>m. m\<lparr>m_hasResourceParams := True\<rparr>)
                          (assign PResourceParams (\<lambda>m. m\<lparr>m_resourceParams := Some []\<rparr>) h a) a
                   else h);
             w = owner PResourceParams h1 a
         in case lookup m_resourceParams PResourceParams h1 a of
              None \<Rightarrow> h1
            | Some rp \<Rightarrow> h1[w := (h1 ! w)\<lparr>m_resourceParams := Some (rp @ [x])\<rparr>])
      else h)"

text \<open>\<open>fixArgsOfPrototypeMethods\<close>, lines 193 to 213.\<close>

definition fixArgsOfPrototypeMethods :: "nat \<Rightarrow> heap \<Rightarrow> heap" where
  "fixArgsOfPrototypeMethods a h =
     (case m_restClass_ctor (h ! a) of
        None \<Rightarrow> h
      | Some ctor \<Rightarrow>
          if m_isStatic (h ! a) then h
          else
            (let accepts = ctor_accepts ctor @ lookup m_accepts PAccepts h a;
                 h1 = assign PAccepts (\<lambda>m. m\<lparr>m_accepts := accepts\<rparr>) h a
             in fold (findResourceParams a) accepts h1))"

definition fixDescription :: "nat \<Rightarrow> heap \<Rightarrow> heap" where
  "fixDescription a h =
     assign PDescription
       (\<lambda>m. m\<lparr>m_description := normalizeDescription (lookup m_description PDescription h a)\<rparr>) h a"

text \<open>
  Lines 176 to 217: the clone of \<open>create\<close>, then the two \<open>forEach\<close> loops over the
  methods of the class (the clone included, as it was pushed before).
\<close>

definition augmentMethods :: "heap \<Rightarrow> nat list \<Rightarrow> heap \<times> nat list" where
  "augmentMethods h ms0 =
     (let (h1, ms) = addCreateMany h ms0;
          h2 = fold fixArgsOfPrototypeMethods ms h1;
          h3 = fold fixDescription ms h2
      in (h3, ms))"

text \<open>Exceptions end a loop at once: \<open>forEach\<close> and \<open>for\<close> over a list, with a step that may raise.\<close>

fun forEachE :: "('a \<Rightarrow> 's \<Rightarrow> error + 's) \<Rightarrow> 'a list \<Rightarrow> 's \<Rightarrow> error + 's" where
  "forEachE f [] s = Inr s"
| "forEachE f (x # xs) s = (case f x s of Inl e \<Rightarrow> Inl e | Inr s' \<Rightarrow> forEachE f xs s')"

definition updClass :: "nat \<Rightarrow> (rest_class \<Rightarrow> rest_class) \<Rightarrow> app_state \<Rightarrow> app_state" where
  "updClass i f s = s\<lparr>classes := (classes s)[i := f (classes s ! i)]\<rparr>"

definition logTo :: "level \<Rightarrow> string \<Rightarrow> app_state \<Rightarrow> app_state" where
  "logTo l msg s = s\<lparr>console := console s @ [(l, msg)]\<rparr>"

text \<open>
  The callback of \<open>getClasses().forEach\<close> in \<open>describeModels\<close>, lines 156 to 222, for
  the class at index \<open>i\<close>; \<open>result\<close> is the map built so far. Line 159 reads
  \<open>c.sharedClass.ctor.settings.description\<close> before the two tests that skip a class, and
  raises when the constructor has no settings.
\<close>

definition describeClass :: "options \<Rightarrow> nat \<Rightarrow> app_state \<times> models \<Rightarrow> error + app_state \<times> models" where
  "describeClass opts i sr =
     (let (s, result) = sr; c = classes s ! i in
      case getFormattedModelName (c_name c) opts of
        Inl e \<Rightarrow> Inl e
      | Inr name \<Rightarrow>
          (case c_settings c of
             None \<Rightarrow> Inl TypeError
           | Some settings \<Rightarrow>
               (let s1 = updClass i
                      (\<lambda>c. c\<lparr>c_description := normalizeDescription (s_description settings)\<rparr>) s
                in
                if name \<in> set (modelsToIgnore opts) then
                  Inr (logTo Warn (''Skipping '' @ name @ '' model as it is not to be published'') s1,
                       result)
                else if c_ctor c = None then
                  Inr (logTo Err (''Skipping '' @ name @ '' as it is not a {{LoopBack}} model'') s1,
                       result)
                else
                  (let (h3, ms) = augmentMethods (heap s1) (c_methods c);
                       s2 = updClass i (\<lambda>c. c\<lparr>c_methods := ms, c_isUser := Some (c_isUserType c)\<rparr>)
                              (s1\<lparr>heap := h3\<rparr>)
                   in Inr (s2, setModel name i result)))))"

section \<open>Scope resolution\<close>

definition lineTerminator :: "char \<Rightarrow> bool" where
  "lineTerminator c = (c = CHR 0x0A \<or> c = CHR 0x0D)"

text \<open>
  \<open>SCOPE_METHOD_REGEX = /^prototype.__([^_]+)__(.+)$/\<close>: the dot after
  \<open>prototype\<close> is any character but a line terminator; the first group is the run of
  characters up to the next underscore, which must be non-empty and followed by two
  underscores; the second group is the non-empty rest, without line terminators.
\<close>

definition matchScopeMethod :: "string \<Rightarrow> (string \<times> string) option" where
  "matchScopeMethod name =
     (if take 9 name = ''prototype'' then
        (case drop 9 name of
           [] \<Rightarrow> None
         | d # r1 \<Rightarrow>
             (let r2 = drop 2 r1;
                  op = takeWhile (\<lambda>c. c \<noteq> CHR ''_'') r2;
                  r3 = dropWhile (\<lambda>c. c \<noteq> CHR ''_'') r2;
                  scopeName = drop 2 r3
              in if \<not> lineTerminator d \<and> take 2 r1 = ''__'' \<and> op \<noteq> [] \<and> take 2 r3 = ''__''
                    \<and> scopeName \<noteq> [] \<and> \<not> list_ex lineTerminator scopeName
                 then Some (op, scopeName) else None))
      else None)"

fun findModelByName :: "models \<Rightarrow> string \<Rightarrow> nat option" where
  "findModelByName [] name = None"
| "findModelByName ((n, c) # ms) name =
     (if toLowerCase n = toLowerCase name then Some c else findModelByName ms name)"

datatype resolution = Skip app_state | Proceed app_state | Raise error

text \<open>
  \<open>c.sharedClass.ctor.prototype[scopeName]._targetClass\<close> as a truthy value: a missing
  value and the empty string are both falsy.
\<close>

definition targetClassOf :: "rest_class \<Rightarrow> string \<Rightarrow> string option" where
  "targetClassOf c scopeName =
     (case c_prototype c scopeName of None \<Rightarrow> None | Some t \<Rightarrow> if t = [] then None else Some t)"

text \<open>
  Lines 264 to 266: \<open>targetClass ? getFormattedModelName(targetClass, options) : targetClass\<close>;
  \<open>None\<close> is the falsy target.
\<close>

definition targetModelNameOf :: "options \<Rightarrow> rest_class \<Rightarrow> string \<Rightarrow> error + string option" where
  "targetModelNameOf opts c scopeName =
     (case targetClassOf c scopeName of
        None \<Rightarrow> Inr None
      | Some t \<Rightarrow> map_sum id Some (getFormattedModelName t opts))"

text \<open>
  Lines 268 to 291 of \<open>buildScopeMethod\<close>: the scope entry of the relation is looked at,
  and created, recorded as null, or left missing. Relation names and method names that
  are property names of every JavaScript object (\<open>constructor\<close>, \<open>toString\<close>, ...) are
  not modelled.
\<close>

definition resolveScope ::
  "models \<Rightarrow> string \<Rightarrow> nat \<Rightarrow> string \<Rightarrow> string \<Rightarrow> string option \<Rightarrow> app_state \<Rightarrow> resolution" where
  "resolveScope mods modelName ci name scopeName targetModelName s =
     (case c_scopes (classes s ! ci) scopeName of
        None \<Rightarrow>
          (case targetModelName of
             None \<Rightarrow> Skip s
           | Some tn \<Rightarrow>
               (case findModelByName mods tn of
                  None \<Rightarrow> Skip (updClass ci (\<lambda>c. c\<lparr>c_scopes := (c_scopes c)(scopeName \<mapsto> None)\<rparr>) s)
                | Some t \<Rightarrow>
                    (let methodName = replaceFirst ''prototype.'' [] name in
                     case app_models s modelName of
                       None \<Rightarrow> Raise TypeError
                     | Some am \<Rightarrow>
                         if (case swaggerMethods am of None \<Rightarrow> False
                             | Some names \<Rightarrow> methodName \<notin> set names)
                         then Skip s
                         else Proceed (updClass ci (\<lambda>c. c\<lparr>c_scopes := (c_scopes c)(scopeName \<mapsto>
                                Some \<lparr>sc_methods = Map.empty, sc_targetClass = tn\<rparr>)\<rparr>) s))))
      | Some None \<Rightarrow> Skip s
      | Some (Some d) \<Rightarrow> Proceed s)"

text \<open>Lines 293 to 300: the name of the operation in the scope.\<close>

definition apiNameOf :: "string \<Rightarrow> string \<Rightarrow> string" where
  "apiNameOf op scopeName =
     (if op = ''get'' then scopeName
      else if op = ''delete'' then scopeName @ ''.destroyAll''
      else scopeName @ ''.'' @ op)"

definition pushMethod :: "nat \<Rightarrow> nat \<Rightarrow> app_state \<Rightarrow> app_state" where
  "pushMethod ci a s = updClass ci (\<lambda>c. c\<lparr>c_methods := c_methods c @ [a]\<rparr>) s"

text \<open>\<open>modelClass.scopes[scopeName].methods[apiName] = m\<close>; it raises when the scope is missing or null.\<close>

definition setScopeMethod :: "nat \<Rightarrow> string \<Rightarrow> string \<Rightarrow> nat \<Rightarrow> app_state \<Rightarrow> error + app_state" where
  "setScopeMethod ci scopeName apiName m s =
     (case c_scopes (classes s ! ci) scopeName of
        Some (Some d) \<Rightarrow>
          Inr (updClass ci (\<lambda>c. c\<lparr>c_scopes := (c_scopes c)(scopeName \<mapsto>
                 Some (d\<lparr>sc_methods := (sc_methods d)(apiName \<mapsto> m)\<rparr>))\<rparr>) s)
      | _ \<Rightarrow> Inl TypeError)"

definition internalReplace :: "string \<Rightarrow> string \<Rightarrow> internal_note \<Rightarrow> internal_note" where
  "internalReplace pat rep n = (case n of NoteString t \<Rightarrow> NoteString (replaceFirst pat rep t) | _ \<Rightarrow> n)"

text \<open>Lines 302 to 332: the note on the method, and the reverse method on the target model.\<close>

definition addReverseMethod ::
  "models \<Rightarrow> string \<Rightarrow> nat \<Rightarrow> string \<Rightarrow> string \<Rightarrow> string \<Rightarrow> string option \<Rightarrow> app_state
     \<Rightarrow> error + app_state" where
  "addReverseMethod mods modelName a op scopeName apiName targetModelName s =
     (case modelName of
        [] \<Rightarrow> Inl TypeError
      | c0 # cs \<Rightarrow>
          (let ngModelName = toUpperChar c0 # cs;
               internal = NoteString (''Use '' @ ngModelName @ ''.'' @ apiName @ ''() instead.'');
               h1 = assign PInternal (\<lambda>m. m\<lparr>m_internal := internal\<rparr>) (heap s) a;
               reverseName = ''::'' @ op @ ''::'' @ modelName @ ''::'' @ scopeName;
               (h2, reverseMethod) = objectCreate h1 a;
               h3 = assign PName (\<lambda>m. m\<lparr>m_name := reverseName\<rparr>) h2 reverseMethod;
               h4 = assign PInternal (\<lambda>m. m\<lparr>m_internal := internal\<rparr>) h3 reverseMethod;
               h5 = assign PDeprecated (\<lambda>m. m\<lparr>m_deprecated := Some False\<rparr>) h4 reverseMethod
           in case (case targetModelName of None \<Rightarrow> None | Some tn \<Rightarrow> findModelByName mods tn) of
                None \<Rightarrow> Inl TypeError
              | Some reverseModel \<Rightarrow>
                  (let s1 = pushMethod reverseModel reverseMethod (s\<lparr>heap := h5\<rparr>) in
                   if containsStr ''create'' (lookup m_name PName h5 reverseMethod) then
                     (let (h6, createMany) = objectCreate h5 reverseMethod;
                          h7 = assign PName (\<lambda>m. m\<lparr>m_name :=
                                 replaceFirst ''create'' ''createMany'' (lookup m_name PName h6 createMany)\<rparr>)
                                 h6 createMany;
                          h8 = assign PInternal (\<lambda>m. m\<lparr>m_internal :=
                                 internalReplace ''create'' ''createMany''
                                   (lookup m_internal PInternal h7 createMany)\<rparr>) h7 createMany;
                          h9 = assign PIsReturningArray (\<lambda>m. m\<lparr>m_isReturningArray := True\<rparr>)
                                 h8 createMany
                      in Inr (pushMethod reverseModel createMany (s1\<lparr>heap := h9\<rparr>)))
                   else Inr s1)))"

text \<open>Lines 334 to 351: the scope method in the scope of the model.\<close>

definition addScopeMethod ::
  "string \<Rightarrow> nat \<Rightarrow> nat \<Rightarrow> string \<Rightarrow> string \<Rightarrow> string \<Rightarrow> app_state \<Rightarrow> error + app_state" where
  "addScopeMethod modelName ci a op scopeName apiName s =
     (let reverseName = ''::'' @ op @ ''::'' @ modelName @ ''::'' @ scopeName;
          (h1, scopeMethod) = objectCreate (heap s) a;
          h2 = assign PName (\<lambda>m. m\<lparr>m_name := reverseName\<rparr>) h1 scopeMethod;
          h3 = assign PDeprecated (\<lambda>m. m\<lparr>m_deprecated := Some False\<rparr>) h2 scopeMethod;
          h4 = assign PInternal (\<lambda>m. m\<lparr>m_internal := NoteFalse\<rparr>) h3 scopeMethod
      in case setScopeMethod ci scopeName apiName scopeMethod (s\<lparr>heap := h4\<rparr>) of
           Inl e \<Rightarrow> Inl e
         | Inr s1 \<Rightarrow>
             if containsStr ''create'' (lookup m_name PName h4 scopeMethod) then
               (let (h5, scopeCreateMany) = objectCreate h4 scopeMethod;
                    h6 = assign PName (\<lambda>m. m\<lparr>m_name :=
                           replaceFirst ''create'' ''createMany''
                             (lookup m_name PName h5 scopeCreateMany)\<rparr>) h5 scopeCreateMany;
                    h7 = assign PIsReturningArray (\<lambda>m. m\<lparr>m_isReturningArray := True\<rparr>)
                           h6 scopeCreateMany
                in setScopeMethod ci scopeName (replaceFirst ''create'' ''createMany'' apiName)
                     scopeCreateMany (s1\<lparr>heap := h7\<rparr>))
             else Inr s1)"

text \<open>\<open>buildScopeMethod\<close>, lines 254 to 352, for the method object at address \<open>a\<close>.\<close>

definition buildScopeMethod :: "options \<Rightarrow> models \<Rightarrow> string \<Rightarrow> nat \<Rightarrow> app_state \<Rightarrow> error + app_state" where
  "buildScopeMethod opts mods modelName a s =
     (let name = lookup m_name PName (heap s) a in
      case matchScopeMethod name of
        None \<Rightarrow> Inr s
      | Some (op, scopeName) \<Rightarrow>
          (case map_of mods modelName of
             None \<Rightarrow> Inl TypeError
           | Some ci \<Rightarrow>
               (case targetModelNameOf opts (classes s ! ci) scopeName of
                  Inl e \<Rightarrow> Inl e
                | Inr targetModelName \<Rightarrow>
                    (case resolveScope mods modelName ci name scopeName targetModelName s of
                       Raise e \<Rightarrow> Inl e
                     | Skip s1 \<Rightarrow> Inr s1
                     | Proceed s1 \<Rightarrow>
                         (let apiName = apiNameOf op scopeName in
                          case addReverseMethod mods modelName a op scopeName apiName
                                 targetModelName s1 of
                            Inl e \<Rightarrow> Inl e
                          | Inr s2 \<Rightarrow> addScopeMethod modelName ci a op scopeName apiName s2)))))"

definition buildScopesOfModel :: "options \<Rightarrow> models \<Rightarrow> string \<Rightarrow> app_state \<Rightarrow> error + app_state" where
  "buildScopesOfModel opts mods modelName s =
     (case map_of mods modelName of
        None \<Rightarrow> Inl TypeError
      | Some ci \<Rightarrow>
          (let s1 = updClass ci (\<lambda>c. c\<lparr>c_scopes := Map.empty\<rparr>) s in
           forEachE (buildScopeMethod opts mods modelName) (c_methods (classes s1 ! ci)) s1))"

definition buildScopes :: "options \<Rightarrow> models \<Rightarrow> app_state \<Rightarrow> error + app_state" where
  "buildScopes opts mods s = forEachE (buildScopesOfModel opts mods) (map fst mods) s"

section \<open>Schemas\<close>

text \<open>\<open>type.modelName || type.name\<close> for a type that is a function; any other type is kept.\<close>

definition normalizeType :: "ptype \<Rightarrow> ptype" where
  "normalizeType t =
     (case t of
        TypeValue v \<Rightarrow> TypeValue v
      | TypeFunction mn nm \<Rightarrow>
          TypeValue (case mn of None \<Rightarrow> nm | Some m \<Rightarrow> if m = [] then nm else m))"

definition buildSchema :: "models \<Rightarrow> string \<Rightarrow> app_state \<Rightarrow> error + app_state" where
  "buildSchema mods modelName s =
     (case app_models s modelName of
        None \<Rightarrow> Inl TypeError
      | Some am \<Rightarrow>
          (case map_of mods modelName of
             None \<Rightarrow> Inl TypeError
           | Some ci \<Rightarrow>
               Inr (updClass ci (\<lambda>c. c\<lparr>c_modelSchema := Some
                      \<lparr>schema_name = modelName,
                       schema_properties = map (\<lambda>(p, t). (p, normalizeType t)) (properties am)\<rparr>\<rparr>) s)))"

definition buildSchemas :: "models \<Rightarrow> app_state \<Rightarrow> error + app_state" where
  "buildSchemas mods s = forEachE (buildSchema mods) (map fst mods) s"

section \<open>The generator\<close>

definition describeModels :: "app_state \<Rightarrow> options \<Rightarrow> error + app_state \<times> models" where
  "describeModels app opts =
     (case forEachE (describeClass opts) [0..<length (classes app)] (app, []) of
        Inl e \<Rightarrow> Inl e
      | Inr (s1, result) \<Rightarrow>
          (case buildScopes opts result s1 of
             Inl e \<Rightarrow> Inl e
           | Inr s2 \<Rightarrow>
               if includeSchema opts then
                 (case buildSchemas result s2 of Inl e \<Rightarrow> Inl e | Inr s3 \<Rightarrow> Inr (s3, result))
               else Inr (s2, result)))"

text \<open>The data handed to the template.\<close>

record render_input =
  moduleName :: string
  r_models :: models
  commonAuth :: string
  commonAuthRequestInterceptor :: string
  commonResource :: string
  commonResourceProvider :: string
  urlBase :: string
  r_includeCommonModules :: bool
  r_comments :: bool

text \<open>
  \<open>generateServices\<close>, lines 86 to 116, up to the call of the renderer: the result is
  the application as the generator leaves it, and the data given to \<open>ejs.render\<close>.
  Reading the template, rendering and the transformation of the rendered text are
  outside the model.
\<close>

definition generateServices :: "app_state \<Rightarrow> options \<Rightarrow> error + app_state \<times> render_input" where
  "generateServices app opts =
     (case describeModels app opts of
        Inl e \<Rightarrow> Inl e
      | Inr (s, mods) \<Rightarrow>
          (case (if namespaceCommonModels opts then
                   (if namespaceDelimiter opts = ''.'' then Inl UnsupportedDelimiter
                    else Inr (replaceDots (namespaceDelimiter opts)
                                (ngModuleName opts @ namespaceDelimiter opts)))
                 else Inr ''LoopBack'') of
             Inl e \<Rightarrow> Inl e
           | Inr commonModelPrefix \<Rightarrow>
               Inr (s, \<lparr>moduleName = ngModuleName opts,
                        r_models = mods,
                        commonAuth = commonModelPrefix @ ''Auth'',
                        commonAuthRequestInterceptor = commonModelPrefix @ ''AuthRequestInterceptor'',
                        commonResource = commonModelPrefix @ ''Resource'',
                        commonResourceProvider = commonModelPrefix @ ''ResourceProvider'',
                        urlBase = stripTrailingSlashes (apiUrl opts),
                        r_includeCommonModules = includeCommonModules opts,
                        r_comments = comments opts\<rparr>)))"

section \<open>Example applications\<close>

definition mkMethod :: "string \<Rightarrow> bool \<Rightarrow> accept_arg list \<Rightarrow> ctor_desc option \<Rightarrow> method_obj" where
  "mkMethod n st acc ct =
     \<lparr>proto = None, own = {}, m_name = n, m_isReturningArray = False, m_accepts = acc,
      m_restClass_ctor = ct, m_isStatic = st, m_resourceParams = None,
      m_hasResourceParams = False, m_description = None, m_internal = NoteUndefined,
      m_deprecated = None\<rparr>"

definition mkClass ::
  "string \<Rightarrow> ctor_desc option \<Rightarrow> (string \<rightharpoonup> string) \<Rightarrow> nat list \<Rightarrow> rest_class" where
  "mkClass n ct pr ms =
     \<lparr>c_name = n, c_ctor = ct, c_settings = Some \<lparr>s_description = None\<rparr>, c_prototype = pr,
      c_isUserType = False, c_methods = ms, c_description = None, c_isUser = None,
      c_scopes = Map.empty, c_modelSchema = None\<rparr>"

definition idArg :: accept_arg where
  "idArg = \<lparr>arg = ''id'', http = Some \<lparr>source = Some ''path''\<rparr>\<rparr>"

definition fkArg :: accept_arg where
  "fkArg = \<lparr>arg = ''fk'', http = Some \<lparr>source = Some ''path''\<rparr>\<rparr>"

definition dataArg :: accept_arg where
  "dataArg = \<lparr>arg = ''data'', http = Some \<lparr>source = Some ''body''\<rparr>\<rparr>"

definition exCtor :: "ctor_desc option" where
  "exCtor = Some \<lparr>ctor_accepts = [idArg]\<rparr>"

definition noSwagger :: app_model where
  "noSwagger = \<lparr>swaggerMethods = None, properties = []\<rparr>"

text \<open>
  Two models declared as \<open>gadget\<close> and \<open>widget\<close>; \<open>gadget\<close> has the relation \<open>widgets\<close>
  to \<open>widget\<close>, the relation \<open>ghosts\<close> to a model that is not in the registry, and a
  relation method for \<open>orphans\<close>, which has no target.
\<close>

definition exApp :: app_state where
  "exApp =
     \<lparr>classes = [mkClass ''gadget'' exCtor [''widgets'' \<mapsto> ''widget'', ''ghosts'' \<mapsto> ''ghost'']
                   [0, 1, 2, 3, 4, 5],
                 mkClass ''widget'' exCtor Map.empty [6]],
      heap = [mkMethod ''create'' True [dataArg] exCtor,
              mkMethod ''prototype.__get__widgets'' False [] exCtor,
              mkMethod ''prototype.__findById__widgets'' False [fkArg] exCtor,
              mkMethod ''prototype.__get__orphans'' False [] exCtor,
              mkMethod ''prototype.__delete__widgets'' False [] exCtor,
              mkMethod ''prototype.__get__ghosts'' False [] exCtor,
              mkMethod ''find'' True [] exCtor],
      app_models = [''Gadget'' \<mapsto> noSwagger, ''Widget'' \<mapsto> noSwagger],
      console = []\<rparr>"

definition exModels :: models where
  "exModels = [(''Gadget'', 0), (''Widget'', 1)]"

text \<open>Observations of a state, and of the result of a run.\<close>

definition methodNames :: "app_state \<Rightarrow> nat \<Rightarrow> string list" where
  "methodNames s i = map (lookup m_name PName (heap s)) (c_methods (classes s ! i))"

definition methodNamesOf :: "error + app_state \<times> 'a \<Rightarrow> nat \<Rightarrow> error + string list" where
  "methodNamesOf r i = (case r of Inl e \<Rightarrow> Inl e | Inr (s, x) \<Rightarrow> Inr (methodNames s i))"

definition emptyApp :: app_state where
  "emptyApp = \<lparr>classes = [], heap = [], app_models = Map.empty, console = []\<rparr>"

definition urlBaseOf :: "error + app_state \<times> render_input \<Rightarrow> error + string" where
  "urlBaseOf r = (case r of Inl e \<Rightarrow> Inl e | Inr (s, x) \<Rightarrow> Inr (urlBase x))"

definition exOptsDot :: options where
  "exOptsDot = defaultOptions\<lparr>namespaceCommonModels := True\<rparr>"

text \<open>An application whose only class has the empty name, and no constructor.\<close>

definition namelessApp :: app_state where
  "namelessApp =
     \<lparr>classes = [mkClass [] None Map.empty []], heap = [], app_models = Map.empty,
      console = []\<rparr>"



definition scopeTargetOf :: "error + app_state \<Rightarrow> nat \<Rightarrow> string \<Rightarrow> error + string option option" where
  "scopeTargetOf r i sn =
     (case r of Inl e \<Rightarrow> Inl e
      | Inr s \<Rightarrow> Inr (map_option (map_option sc_targetClass) (c_scopes (classes s ! i) sn)))"

text \<open>A static method with a path parameter, and an instance method of a class without constructor.\<close>

definition staticHeap :: heap where
  "staticHeap = [mkMethod ''findThing'' True [fkArg] exCtor]"

definition noCtorHeap :: heap where
  "noCtorHeap = [mkMethod ''prototype.thing'' False [fkArg] None]"

text \<open>
  A class that is not a model: it has no constructor entry. In \<open>ghostApp\<close> its
  constructor function has settings, in \<open>bareApp\<close> it has none.
\<close>

definition ghostApp :: app_state where
  "ghostApp =
     \<lparr>classes = [mkClass ''ghost'' None Map.empty []], heap = [], app_models = Map.empty,
      console = []\<rparr>"

definition bareApp :: app_state where
  "bareApp =
     \<lparr>classes = [(mkClass ''ghost'' None Map.empty [])\<lparr>c_settings := None\<rparr>], heap = [],
      app_models = Map.empty, console = []\<rparr>"

definition errorOf :: "error + 'a \<Rightarrow> error option" where
  "errorOf r = (case r of Inl e \<Rightarrow> Some e | Inr x \<Rightarrow> None)"



definition consoleOf :: "error + app_state \<times> 'a \<Rightarrow> error + (level \<times> string) list" where
  "consoleOf r = (case r of Inl e \<Rightarrow> Inl e | Inr (s, x) \<Rightarrow> Inr (console s))"

definition resultOf :: "error + app_state \<times> 'a \<Rightarrow> error + 'a" where
  "resultOf r = (case r of Inl e \<Rightarrow> Inl e | Inr (s, x) \<Rightarrow> Inr x)"

section \<open>Properties of the heap\<close>

lemma lookup_root: "proto (h ! a) = None \<Longrightarrow> lookup f t h a = f (h ! a)"
  by (subst lookup.simps) simp

lemma lookup_own: "t \<in> own (h ! a) \<Longrightarrow> lookup f t h a = f (h ! a)"
  by (subst lookup.simps) (simp split: option.splits)

lemma lookup_inherit:
  "proto (h ! a) = Some p \<Longrightarrow> t \<notin> own (h ! a) \<Longrightarrow> p < a \<Longrightarrow> lookup f t h a = lookup f t h p"
  by (subst lookup.simps) simp

lemma owner_le: "owner t h a \<le> a"
proof (induction a rule: less_induct)
  case (less a)
  show ?case
  proof (cases "proto (h ! a)")
    case None
    then show ?thesis by (subst owner.simps) simp
  next
    case (Some p)
    show ?thesis
    proof (cases "t \<in> own (h ! a) \<or> \<not> p < a")
      case True
      then show ?thesis using Some by (subst owner.simps) simp
    next
      case False
      then have "owner t h p \<le> p" using less by blast
      then show ?thesis using Some False by (subst owner.simps) simp
    qed
  qed
qed

lemma lookup_owner: "lookup f t h a = f (h ! owner t h a)"
proof (induction a rule: less_induct)
  case (less a)
  show ?case
  proof (cases "proto (h ! a)")
    case None
    then show ?thesis by (subst lookup.simps, subst owner.simps) simp
  next
    case (Some p)
    show ?thesis
    proof (cases "t \<in> own (h ! a) \<or> \<not> p < a")
      case True
      then show ?thesis using Some by (subst lookup.simps, subst owner.simps) simp
    next
      case False
      then have "lookup f t h p = f (h ! owner t h p)" using less by blast
      then show ?thesis using Some False by (subst lookup.simps, subst owner.simps) simp
    qed
  qed
qed

text \<open>The owner of a property depends on the prototype links and own sets below the address only.\<close>

lemma owner_cong:
  "(\<And>b. b \<le> a \<Longrightarrow> proto (h' ! b) = proto (h ! b) \<and> own (h' ! b) = own (h ! b)) \<Longrightarrow>
   owner t h' a = owner t h a"
proof (induction a rule: less_induct)
  case (less a)
  have pa: "proto (h' ! a) = proto (h ! a)" "own (h' ! a) = own (h ! a)"
    using less.prems[of a] by auto
  show ?case
  proof (cases "proto (h ! a)")
    case None
    then show ?thesis using pa by (subst owner.simps, subst (2) owner.simps) simp
  next
    case (Some p)
    show ?thesis
    proof (cases "t \<in> own (h ! a) \<or> \<not> p < a")
      case True
      then show ?thesis using Some pa by (subst owner.simps, subst (2) owner.simps) simp
    next
      case False
      then have "owner t h' p = owner t h p" using less.IH[of p] less.prems by auto
      then show ?thesis using Some False pa by (subst owner.simps, subst (2) owner.simps) simp
    qed
  qed
qed

section \<open>Properties of scope resolution\<close>

lemma length_classes_updClass: "length (classes (updClass i f s)) = length (classes s)"
  by (simp add: updClass_def)

lemma classes_updClass_nth:
  "j < length (classes s) \<Longrightarrow>
   classes (updClass i f s) ! j = (if j = i then f (classes s ! j) else classes s ! j)"
  by (simp add: updClass_def)

lemma length_classes_pushMethod: "length (classes (pushMethod i a s)) = length (classes s)"
  by (simp add: pushMethod_def length_classes_updClass)

lemma scopes_pushMethod:
  "j < length (classes s) \<Longrightarrow> c_scopes (classes (pushMethod i a s) ! j) = c_scopes (classes s ! j)"
  by (simp add: pushMethod_def classes_updClass_nth)

lemma prototype_pushMethod:
  "j < length (classes s) \<Longrightarrow>
   c_prototype (classes (pushMethod i a s) ! j) = c_prototype (classes s ! j)"
  by (simp add: pushMethod_def classes_updClass_nth)


lemma resolveScope_Skip:
  assumes "resolveScope mods modelName ci name scopeName tmn s = Skip s1"
    and "ci < length (classes s)"
  shows "length (classes s1) = length (classes s)"
    and "c_scopes (classes s1 ! ci) scopeName = None \<or> c_scopes (classes s1 ! ci) scopeName = Some None"
    and "c_scopes (classes s ! ci) scopeName = None \<or> c_scopes (classes s ! ci) scopeName = Some None"
    and "c_prototype (classes s1 ! ci) = c_prototype (classes s ! ci)"
    and "sn \<noteq> scopeName \<Longrightarrow> c_scopes (classes s1 ! ci) sn = c_scopes (classes s ! ci) sn"
  using assms
  by (auto simp: resolveScope_def Let_def classes_updClass_nth length_classes_updClass
           split: option.splits if_splits)

lemma resolveScope_Proceed:
  assumes "resolveScope mods modelName ci name scopeName tmn s = Proceed s1"
    and "ci < length (classes s)"
  shows "length (classes s1) = length (classes s)"
    and "\<exists>d. c_scopes (classes s1 ! ci) scopeName = Some (Some d)"
    and "c_scopes (classes s ! ci) scopeName = Some (Some d0) \<Longrightarrow> s1 = s"
    and "c_scopes (classes s ! ci) scopeName \<noteq> Some None"
    and "c_scopes (classes s ! ci) scopeName = None \<Longrightarrow>
           \<exists>tn. tmn = Some tn \<and> findModelByName mods tn \<noteq> None"
    and "c_prototype (classes s1 ! ci) = c_prototype (classes s ! ci)"
    and "sn \<noteq> scopeName \<Longrightarrow> c_scopes (classes s1 ! ci) sn = c_scopes (classes s ! ci) sn"
  using assms
  by (auto simp: resolveScope_def Let_def classes_updClass_nth length_classes_updClass
           split: option.splits if_splits)

lemma addReverseMethod_classes:
  assumes "addReverseMethod mods modelName a op scopeName apiName tmn s = Inr s2"
  shows "length (classes s2) = length (classes s)"
    and "j < length (classes s) \<Longrightarrow> c_scopes (classes s2 ! j) = c_scopes (classes s ! j)"
    and "j < length (classes s) \<Longrightarrow> c_prototype (classes s2 ! j) = c_prototype (classes s ! j)"
  using assms
  by (auto simp: addReverseMethod_def Let_def length_classes_pushMethod scopes_pushMethod
                 prototype_pushMethod
           split: option.splits if_splits list.splits prod.splits)

lemma setScopeMethod_result:
  assumes "setScopeMethod ci scopeName apiName m s = Inr s'" and "ci < length (classes s)"
  shows "\<exists>d d'. c_scopes (classes s ! ci) scopeName = Some (Some d) \<and>
           c_scopes (classes s' ! ci) scopeName = Some (Some d') \<and>
           sc_methods d' = (sc_methods d)(apiName \<mapsto> m) \<and> sc_targetClass d' = sc_targetClass d"
    and "length (classes s') = length (classes s)"
    and "c_prototype (classes s' ! ci) = c_prototype (classes s ! ci)"
    and "sn \<noteq> scopeName \<Longrightarrow> c_scopes (classes s' ! ci) sn = c_scopes (classes s ! ci) sn"
  using assms
  by (auto simp: setScopeMethod_def classes_updClass_nth length_classes_updClass
           split: option.splits)

text \<open>What \<open>addScopeMethod\<close> does to the scopes of the class: one or two assignments.\<close>

lemma addScopeMethod_steps:
  assumes "addScopeMethod modelName ci a op scopeName apiName s = Inr s'"
  shows "\<exists>h4 sm s1. setScopeMethod ci scopeName apiName sm (s\<lparr>heap := h4\<rparr>) = Inr s1 \<and>
           (s' = s1 \<or> (\<exists>h7 scm. setScopeMethod ci scopeName
                          (replaceFirst ''create'' ''createMany'' apiName) scm (s1\<lparr>heap := h7\<rparr>) = Inr s'))"
proof -
  obtain h4 sm where
    step: "(case setScopeMethod ci scopeName apiName sm (s\<lparr>heap := h4\<rparr>) of
              Inl e \<Rightarrow> Inl e
            | Inr s1 \<Rightarrow>
                if containsStr ''create'' (lookup m_name PName h4 sm) then
                  (let (h5, scopeCreateMany) = objectCreate h4 sm;
                       h6 = assign PName (\<lambda>m. m\<lparr>m_name :=
                              replaceFirst ''create'' ''createMany''
                                (lookup m_name PName h5 scopeCreateMany)\<rparr>) h5 scopeCreateMany;
                       h7 = assign PIsReturningArray (\<lambda>m. m\<lparr>m_isReturningArray := True\<rparr>)
                              h6 scopeCreateMany
                   in setScopeMethod ci scopeName (replaceFirst ''create'' ''createMany'' apiName)
                        scopeCreateMany (s1\<lparr>heap := h7\<rparr>))
                else Inr s1) = Inr s'"
    using assms by (auto simp: addScopeMethod_def Let_def split: prod.splits)
  then obtain s1 where s1: "setScopeMethod ci scopeName apiName sm (s\<lparr>heap := h4\<rparr>) = Inr s1"
    by (auto split: sum.splits)
  show ?thesis
  proof (cases "containsStr ''create'' (lookup m_name PName h4 sm)")
    case False
    then have "s' = s1" using step s1 by simp
    then show ?thesis using s1 by blast
  next
    case True
    then obtain h7 scm where
      "setScopeMethod ci scopeName (replaceFirst ''create'' ''createMany'' apiName) scm
         (s1\<lparr>heap := h7\<rparr>) = Inr s'"
      using step s1 by (auto simp: Let_def split: prod.splits)
    then show ?thesis using s1 by blast
  qed
qed

lemma addScopeMethod_result:
  assumes "addScopeMethod modelName ci a op scopeName apiName s = Inr s'"
    and "ci < length (classes s)"
  shows "\<exists>d d'. c_scopes (classes s ! ci) scopeName = Some (Some d) \<and>
           c_scopes (classes s' ! ci) scopeName = Some (Some d') \<and>
           sc_methods d' apiName \<noteq> None \<and> dom (sc_methods d) \<subseteq> dom (sc_methods d') \<and>
           sc_targetClass d' = sc_targetClass d"
    and "length (classes s') = length (classes s)"
    and "c_prototype (classes s' ! ci) = c_prototype (classes s ! ci)"
    and "sn \<noteq> scopeName \<Longrightarrow> c_scopes (classes s' ! ci) sn = c_scopes (classes s ! ci) sn"
proof -
  from addScopeMethod_steps[OF assms(1)] obtain h4 sm s1 where
    s1: "setScopeMethod ci scopeName apiName sm (s\<lparr>heap := h4\<rparr>) = Inr s1"
    and rest: "s' = s1 \<or> (\<exists>h7 scm. setScopeMethod ci scopeName
                 (replaceFirst ''create'' ''createMany'' apiName) scm (s1\<lparr>heap := h7\<rparr>) = Inr s')"
    by blast
  have len0: "ci < length (classes (s\<lparr>heap := h4\<rparr>))" using assms(2) by simp
  from setScopeMethod_result(1)[OF s1 len0] obtain d d1 where
    d: "c_scopes (classes s ! ci) scopeName = Some (Some d)"
       "c_scopes (classes s1 ! ci) scopeName = Some (Some d1)"
       "sc_methods d1 = (sc_methods d)(apiName \<mapsto> sm)" "sc_targetClass d1 = sc_targetClass d"
    by auto
  have len1: "length (classes s1) = length (classes s)"
    using setScopeMethod_result(2)[OF s1 len0] by simp
  have pr1: "c_prototype (classes s1 ! ci) = c_prototype (classes s ! ci)"
    using setScopeMethod_result(3)[OF s1 len0] by simp
  have fr1: "sn \<noteq> scopeName \<Longrightarrow> c_scopes (classes s1 ! ci) sn = c_scopes (classes s ! ci) sn"
    using setScopeMethod_result(4)[OF s1 len0] by simp
  from rest show "\<exists>d d'. c_scopes (classes s ! ci) scopeName = Some (Some d) \<and>
           c_scopes (classes s' ! ci) scopeName = Some (Some d') \<and>
           sc_methods d' apiName \<noteq> None \<and> dom (sc_methods d) \<subseteq> dom (sc_methods d') \<and>
           sc_targetClass d' = sc_targetClass d"
  proof
    assume "s' = s1"
    then show ?thesis using d by auto
  next
    assume "\<exists>h7 scm. setScopeMethod ci scopeName
              (replaceFirst ''create'' ''createMany'' apiName) scm (s1\<lparr>heap := h7\<rparr>) = Inr s'"
    then obtain h7 scm where s2: "setScopeMethod ci scopeName
              (replaceFirst ''create'' ''createMany'' apiName) scm (s1\<lparr>heap := h7\<rparr>) = Inr s'"
      by blast
    have len2: "ci < length (classes (s1\<lparr>heap := h7\<rparr>))" using assms(2) len1 by simp
    from setScopeMethod_result(1)[OF s2 len2] d show ?thesis by auto
  qed
  from rest show "length (classes s') = length (classes s)"
  proof
    assume "s' = s1"
    then show ?thesis using len1 by simp
  next
    assume "\<exists>h7 scm. setScopeMethod ci scopeName
              (replaceFirst ''create'' ''createMany'' apiName) scm (s1\<lparr>heap := h7\<rparr>) = Inr s'"
    then obtain h7 scm where s2: "setScopeMethod ci scopeName
              (replaceFirst ''create'' ''createMany'' apiName) scm (s1\<lparr>heap := h7\<rparr>) = Inr s'"
      by blast
    have len2: "ci < length (classes (s1\<lparr>heap := h7\<rparr>))" using assms(2) len1 by simp
    from setScopeMethod_result(2)[OF s2 len2] len1 show ?thesis by simp
  qed
  from rest show "c_prototype (classes s' ! ci) = c_prototype (classes s ! ci)"
  proof
    assume "s' = s1"
    then show ?thesis using pr1 by simp
  next
    assume "\<exists>h7 scm. setScopeMethod ci scopeName
              (replaceFirst ''create'' ''createMany'' apiName) scm (s1\<lparr>heap := h7\<rparr>) = Inr s'"
    then obtain h7 scm where s2: "setScopeMethod ci scopeName
              (replaceFirst ''create'' ''createMany'' apiName) scm (s1\<lparr>heap := h7\<rparr>) = Inr s'"
      by blast
    have len2: "ci < length (classes (s1\<lparr>heap := h7\<rparr>))" using assms(2) len1 by simp
    from setScopeMethod_result(3)[OF s2 len2] pr1 show ?thesis by simp
  qed
  assume ne: "sn \<noteq> scopeName"
  from rest show "c_scopes (classes s' ! ci) sn = c_scopes (classes s ! ci) sn"
  proof
    assume "s' = s1"
    then show ?thesis using fr1 ne by simp
  next
    assume "\<exists>h7 scm. setScopeMethod ci scopeName
              (replaceFirst ''create'' ''createMany'' apiName) scm (s1\<lparr>heap := h7\<rparr>) = Inr s'"
    then obtain h7 scm where s2: "setScopeMethod ci scopeName
              (replaceFirst ''create'' ''createMany'' apiName) scm (s1\<lparr>heap := h7\<rparr>) = Inr s'"
      by blast
    have len2: "ci < length (classes (s1\<lparr>heap := h7\<rparr>))" using assms(2) len1 by simp
    from setScopeMethod_result(4)[OF s2 len2] fr1 ne show ?thesis by simp
  qed
qed

text \<open>The ways \<open>buildScopeMethod\<close> returns normally.\<close>

lemma buildScopeMethod_cases:
  assumes "buildScopeMethod opts mods modelName a s = Inr s'"
    and "map_of mods modelName = Some ci"
  shows "(matchScopeMethod (lookup m_name PName (heap s) a) = None \<and> s' = s) \<or>
         (\<exists>op scopeName tmn.
            matchScopeMethod (lookup m_name PName (heap s) a) = Some (op, scopeName) \<and>
            targetModelNameOf opts (classes s ! ci) scopeName = Inr tmn \<and>
            (resolveScope mods modelName ci (lookup m_name PName (heap s) a) scopeName tmn s = Skip s' \<or>
             (\<exists>s1 s2.
                resolveScope mods modelName ci (lookup m_name PName (heap s) a) scopeName tmn s
                  = Proceed s1 \<and>
                addReverseMethod mods modelName a op scopeName (apiNameOf op scopeName) tmn s1 = Inr s2 \<and>
                addScopeMethod modelName ci a op scopeName (apiNameOf op scopeName) s2 = Inr s')))"
  using assms
  by (auto simp: buildScopeMethod_def Let_def split: option.splits sum.splits resolution.splits)

section \<open>Formatted names and the URL base\<close>

lemma stripTrailingSlashes_dropWhile:
  "stripTrailingSlashes s = rev (dropWhile (\<lambda>c. c = CHR ''/'') (rev s))"
  by (induction s) (auto simp: dropWhile_append list_all_iff)

lemma stripTrailingSlashes_suffix:
  "\<exists>k. s = stripTrailingSlashes s @ replicate k (CHR ''/'')"
proof (induction s)
  case Nil
  then show ?case by simp
next
  case (Cons c cs)
  show ?case
  proof (cases "list_all (\<lambda>d. d = CHR ''/'') (c # cs)")
    case True
    then have "\<forall>y\<in>set (c # cs). y = CHR ''/''" by (simp add: list_all_iff)
    then have rep: "replicate (length (c # cs)) (CHR ''/'') = c # cs"
      by (rule replicate_length_same)
    have st: "stripTrailingSlashes (c # cs) = []" using True by simp
    have "c # cs = stripTrailingSlashes (c # cs) @ replicate (length (c # cs)) (CHR ''/'')"
      unfolding st by (simp only: append_Nil rep)
    then show ?thesis by (rule exI)
  next
    case False
    then show ?thesis using Cons by auto
  qed
qed

lemma stripTrailingSlashes_last:
  "stripTrailingSlashes s = [] \<or> last (stripTrailingSlashes s) \<noteq> CHR ''/''"
  using hd_dropWhile [of "\<lambda>c. c = CHR ''/''" "rev s"]
  by (auto simp: stripTrailingSlashes_dropWhile last_rev)

text \<open>
  C9. For every raw model name for which the name is formatted at all (the empty name
  raises under both configurations), and two configurations that differ only in
  \<open>namespaceModels\<close>, the name formatted with namespacing is the module name, then the
  delimiter, then the name formatted without namespacing.
\<close>

theorem C9_namespaced_name_suffix:
  assumes "getFormattedModelName n (opts\<lparr>namespaceModels := False\<rparr>) = Inr plain"
  shows "getFormattedModelName n (opts\<lparr>namespaceModels := True\<rparr>)
           = Inr (ngModuleName opts @ namespaceDelimiter opts @ plain)"
  using assms by (auto simp: getFormattedModelName_def Let_def split: list.splits)

theorem C9_namespaced_name_suffix_witness:
  "getFormattedModelName ''gadget'' (defaultOptions\<lparr>namespaceModels := False\<rparr>) = Inr ''Gadget'' \<and>
   getFormattedModelName ''gadget'' (defaultOptions\<lparr>namespaceModels := True\<rparr>)
     = Inr ''lbServices.Gadget''"
proof -
  have h: "getFormattedModelName ''gadget'' (defaultOptions\<lparr>namespaceModels := False\<rparr>) = Inr ''Gadget''"
    by (simp add: getFormattedModelName_def defaultOptions_def toUpperChar_def lowerLetters_def
                  upperLetters_def)
  from C9_namespaced_name_suffix [OF h] h show ?thesis
    by (simp add: defaultOptions_def)
qed

text \<open>
  C10. Whenever the generator reaches the renderer, the URL base it passes is the
  configured \<open>apiUrl\<close> without its trailing slashes: \<open>apiUrl\<close> is the URL base followed
  by slashes only, and the URL base does not end in a slash.
\<close>

theorem C10_url_base_strips_trailing_slashes:
  assumes "generateServices app opts = Inr (s, r)"
  shows "urlBase r = rev (dropWhile (\<lambda>c. c = CHR ''/'') (rev (apiUrl opts))) \<and>
         (\<exists>k. apiUrl opts = urlBase r @ replicate k (CHR ''/'')) \<and>
         (urlBase r = [] \<or> last (urlBase r) \<noteq> CHR ''/'')"
proof -
  have "urlBase r = stripTrailingSlashes (apiUrl opts)"
    using assms by (auto simp: generateServices_def split: sum.splits if_splits)
  then show ?thesis
    using stripTrailingSlashes_dropWhile [of "apiUrl opts"]
      stripTrailingSlashes_suffix [of "apiUrl opts"] stripTrailingSlashes_last [of "apiUrl opts"]
    by simp
qed

lemma generateServices_emptyApp:
  "\<not> namespaceCommonModels opts \<Longrightarrow> \<not> includeSchema opts \<Longrightarrow>
   \<exists>r. generateServices emptyApp opts = Inr (emptyApp, r)"
  by (simp add: generateServices_def describeModels_def emptyApp_def buildScopes_def)

theorem C10_url_base_strips_trailing_slashes_witness:
  "urlBaseOf (generateServices emptyApp (defaultOptions\<lparr>apiUrl := ''http://x/api///''\<rparr>))
     = Inr ''http://x/api'' \<and>
   urlBaseOf (generateServices emptyApp (defaultOptions\<lparr>apiUrl := ''http://x/api''\<rparr>))
     = Inr ''http://x/api'' \<and>
   urlBaseOf (generateServices emptyApp (defaultOptions\<lparr>apiUrl := ''/''\<rparr>)) = Inr []"
proof -
  obtain r1 where r1: "generateServices emptyApp (defaultOptions\<lparr>apiUrl := ''http://x/api///''\<rparr>)
      = Inr (emptyApp, r1)"
    using generateServices_emptyApp [of "defaultOptions\<lparr>apiUrl := ''http://x/api///''\<rparr>"]
    by (auto simp: defaultOptions_def)
  obtain r2 where r2: "generateServices emptyApp (defaultOptions\<lparr>apiUrl := ''http://x/api''\<rparr>)
      = Inr (emptyApp, r2)"
    using generateServices_emptyApp [of "defaultOptions\<lparr>apiUrl := ''http://x/api''\<rparr>"]
    by (auto simp: defaultOptions_def)
  obtain r3 where r3: "generateServices emptyApp (defaultOptions\<lparr>apiUrl := ''/''\<rparr>)
      = Inr (emptyApp, r3)"
    using generateServices_emptyApp [of "defaultOptions\<lparr>apiUrl := ''/''\<rparr>"]
    by (auto simp: defaultOptions_def)
  have "urlBase r1 = ''http://x/api''"
    using C10_url_base_strips_trailing_slashes [OF r1] by simp
  moreover have "urlBase r2 = ''http://x/api''"
    using C10_url_base_strips_trailing_slashes [OF r2] by simp
  moreover have "urlBase r3 = []"
    using C10_url_base_strips_trailing_slashes [OF r3] by simp
  ultimately show ?thesis using r1 r2 r3 by (simp add: urlBaseOf_def)
qed

section \<open>The configuration error\<close>

text \<open>
  C6, as the code has it. When common-model namespacing is enabled with the delimiter
  \<open>.\<close>, the configuration error is raised once model collection, method augmentation
  and scope resolution have returned, and no data reaches the renderer; when model
  collection raises, the generator raises that error.
\<close>

theorem C6_delimiter_error_after_collection:
  "(namespaceCommonModels opts \<and> namespaceDelimiter opts = ''.'' \<and>
      describeModels app opts = Inr (s, mods)
      \<longrightarrow> generateServices app opts = Inl UnsupportedDelimiter) \<and>
   (describeModels app opts = Inl e \<longrightarrow> generateServices app opts = Inl e)"
  by (simp add: generateServices_def)

lemma describeModels_namelessApp: "describeModels namelessApp exOptsDot = Inl TypeError"
  by (simp add: describeModels_def namelessApp_def describeClass_def mkClass_def
                getFormattedModelName_def)

lemma describeModels_exApp_dot:
  "methodNamesOf (describeModels exApp exOptsDot) 0 =
     Inr [''create'', ''prototype.__get__widgets'', ''prototype.__findById__widgets'',
          ''prototype.__get__orphans'', ''prototype.__delete__widgets'',
          ''prototype.__get__ghosts'', ''createMany'']"
  by code_simp

theorem C6_delimiter_error_after_collection_witness:
  "namespaceCommonModels exOptsDot \<and> namespaceDelimiter exOptsDot = ''.'' \<and>
   generateServices exApp exOptsDot = Inl UnsupportedDelimiter \<and>
   generateServices namelessApp exOptsDot = Inl TypeError"
proof -
  have opts: "namespaceCommonModels exOptsDot \<and> namespaceDelimiter exOptsDot = ''.''"
    by (simp add: exOptsDot_def defaultOptions_def)
  obtain s mods where ok: "describeModels exApp exOptsDot = Inr (s, mods)"
    using describeModels_exApp_dot by (auto simp: methodNamesOf_def split: sum.splits)
  have "generateServices exApp exOptsDot = Inl UnsupportedDelimiter"
    using C6_delimiter_error_after_collection [of exOptsDot exApp s mods] opts ok by simp
  moreover have "generateServices namelessApp exOptsDot = Inl TypeError"
    using C6_delimiter_error_after_collection [of exOptsDot namelessApp _ _ TypeError]
      describeModels_namelessApp by simp
  ultimately show ?thesis using opts by simp
qed

text \<open>
  C6 as stated fails: with the reserved delimiter, the run on the example application
  ends in the configuration error after model collection has added \<open>createMany\<close> to the
  methods of the first class, and the run on the application with a nameless class ends
  in the error of model collection, not in the configuration error.
\<close>

theorem C6_counterexample:
  "generateServices exApp exOptsDot = Inl UnsupportedDelimiter \<and>
   methodNames exApp 0 =
     [''create'', ''prototype.__get__widgets'', ''prototype.__findById__widgets'',
      ''prototype.__get__orphans'', ''prototype.__delete__widgets'',
      ''prototype.__get__ghosts''] \<and>
   methodNamesOf (describeModels exApp exOptsDot) 0 =
     Inr [''create'', ''prototype.__get__widgets'', ''prototype.__findById__widgets'',
          ''prototype.__get__orphans'', ''prototype.__delete__widgets'',
          ''prototype.__get__ghosts'', ''createMany''] \<and>
   generateServices namelessApp exOptsDot = Inl TypeError"
proof -
  obtain s mods where ok: "describeModels exApp exOptsDot = Inr (s, mods)"
    using describeModels_exApp_dot by (auto simp: methodNamesOf_def split: sum.splits)
  have "generateServices exApp exOptsDot = Inl UnsupportedDelimiter"
    using ok by (simp add: generateServices_def exOptsDot_def defaultOptions_def)
  moreover have "methodNames exApp 0 =
     [''create'', ''prototype.__get__widgets'', ''prototype.__findById__widgets'',
      ''prototype.__get__orphans'', ''prototype.__delete__widgets'',
      ''prototype.__get__ghosts'']"
    by code_simp
  moreover have "generateServices namelessApp exOptsDot = Inl TypeError"
    using describeModels_namelessApp by (simp add: generateServices_def)
  ultimately show ?thesis using describeModels_exApp_dot by simp
qed

section \<open>Invariants of scope resolution\<close>








text \<open>The operation name under which the scope method is stored.\<close>

lemma buildScopeMethod_apiName:
  assumes "buildScopeMethod opts mods modelName a s = Inr s'"
    and "matchScopeMethod (lookup m_name PName (heap s) a) = Some (op, scopeName)"
    and "map_of mods modelName = Some ci" and "ci < length (classes s)"
    and "c_scopes (classes s' ! ci) scopeName = Some (Some d)"
  shows "sc_methods d (apiNameOf op scopeName) \<noteq> None"
proof -
  let ?name = "lookup m_name PName (heap s) a"
  from buildScopeMethod_cases [OF assms(1,3)] assms(2)
  consider (skip) tmn where "resolveScope mods modelName ci ?name scopeName tmn s = Skip s'"
    | (proceed) tmn s1 s2 where
        "resolveScope mods modelName ci ?name scopeName tmn s = Proceed s1"
        "addReverseMethod mods modelName a op scopeName (apiNameOf op scopeName) tmn s1 = Inr s2"
        "addScopeMethod modelName ci a op scopeName (apiNameOf op scopeName) s2 = Inr s'"
    by auto
  then show ?thesis
  proof cases
    case skip
    then show ?thesis using resolveScope_Skip(2) [OF skip assms(4)] assms(5) by auto
  next
    case proceed
    have l1: "length (classes s1) = length (classes s)"
      using resolveScope_Proceed(1) [OF proceed(1) assms(4)] .
    have l2: "length (classes s2) = length (classes s1)"
      using addReverseMethod_classes(1) [OF proceed(2)] .
    have c2: "ci < length (classes s2)" using assms(4) l1 l2 by simp
    show ?thesis using addScopeMethod_result(1) [OF proceed(3) c2] assms(5) by auto
  qed
qed

section \<open>Scope resolution: the claims\<close>

lemma exApp_get_widgets:
  "scopeTargetOf (buildScopeMethod defaultOptions exModels ''Gadget'' 1 exApp) 0 ''widgets''
     = Inr (Some (Some ''Widget''))"
  by code_simp

lemma exApp_delete_widgets:
  "scopeTargetOf (buildScopeMethod defaultOptions exModels ''Gadget'' 4 exApp) 0 ''widgets''
     = Inr (Some (Some ''Widget''))"
  by code_simp

lemma exApp_names:
  "lookup m_name PName (heap exApp) 1 = ''prototype.__get__widgets''"
  "lookup m_name PName (heap exApp) 4 = ''prototype.__delete__widgets''"
  "lookup m_name PName (heap exApp) 5 = ''prototype.__get__ghosts''"
  by code_simp+

lemma exApp_matches:
  "matchScopeMethod ''prototype.__get__widgets'' = Some (''get'', ''widgets'')"
  "matchScopeMethod ''prototype.__delete__widgets'' = Some (''delete'', ''widgets'')"
  "matchScopeMethod ''prototype.__get__ghosts'' = Some (''get'', ''ghosts'')"
  by code_simp+

text \<open>
  C5. For a matched relation method with operation \<open>op\<close> and relation \<open>scopeName\<close> whose
  scope is exposed, the scope method is stored under the derived operation name: the
  bare relation name for \<open>get\<close>, the relation name and \<open>.destroyAll\<close> for \<open>delete\<close>, and
  the relation name, a dot and \<open>op\<close> otherwise.
\<close>

theorem C5_api_name:
  assumes "buildScopeMethod opts mods modelName a s = Inr s'"
    and "matchScopeMethod (lookup m_name PName (heap s) a) = Some (op, scopeName)"
    and "map_of mods modelName = Some ci" and "ci < length (classes s)"
    and "c_scopes (classes s' ! ci) scopeName = Some (Some d)"
  shows "apiNameOf op scopeName =
           (if op = ''get'' then scopeName
            else if op = ''delete'' then scopeName @ ''.destroyAll''
            else scopeName @ ''.'' @ op) \<and>
         sc_methods d (if op = ''get'' then scopeName
            else if op = ''delete'' then scopeName @ ''.destroyAll''
            else scopeName @ ''.'' @ op) \<noteq> None"
proof -
  have "sc_methods d (apiNameOf op scopeName) \<noteq> None"
    using buildScopeMethod_apiName [OF assms] .
  then show ?thesis by (simp add: apiNameOf_def)
qed

theorem C5_api_name_witness:
  "(\<exists>s' d. buildScopeMethod defaultOptions exModels ''Gadget'' 1 exApp = Inr s' \<and>
       c_scopes (classes s' ! 0) ''widgets'' = Some (Some d) \<and>
       sc_methods d ''widgets'' \<noteq> None) \<and>
   (\<exists>s' d. buildScopeMethod defaultOptions exModels ''Gadget'' 4 exApp = Inr s' \<and>
       c_scopes (classes s' ! 0) ''widgets'' = Some (Some d) \<and>
       sc_methods d ''widgets.destroyAll'' \<noteq> None)"
proof -
  have mo: "map_of exModels ''Gadget'' = Some 0" by (simp add: exModels_def)
  have len: "0 < length (classes exApp)" by (simp add: exApp_def)
  obtain s1 d1 where r1: "buildScopeMethod defaultOptions exModels ''Gadget'' 1 exApp = Inr s1"
    and d1: "c_scopes (classes s1 ! 0) ''widgets'' = Some (Some d1)"
    using exApp_get_widgets by (auto simp: scopeTargetOf_def split: sum.splits)
  have m1: "matchScopeMethod (lookup m_name PName (heap exApp) 1) = Some (''get'', ''widgets'')"
    by (simp only: exApp_names exApp_matches)
  obtain s4 d4 where r4: "buildScopeMethod defaultOptions exModels ''Gadget'' 4 exApp = Inr s4"
    and d4: "c_scopes (classes s4 ! 0) ''widgets'' = Some (Some d4)"
    using exApp_delete_widgets by (auto simp: scopeTargetOf_def split: sum.splits)
  have m4: "matchScopeMethod (lookup m_name PName (heap exApp) 4) = Some (''delete'', ''widgets'')"
    by (simp only: exApp_names exApp_matches)
  have "sc_methods d1 ''widgets'' \<noteq> None"
    using C5_api_name [OF r1 m1 mo len d1] by simp
  moreover have "sc_methods d4 ''widgets.destroyAll'' \<noteq> None"
    using C5_api_name [OF r4 m4 mo len d4] by simp
  ultimately show ?thesis using r1 d1 r4 d4 by blast
qed














text \<open>
  C1, on the example application: the model declared as \<open>gadget\<close> has the relation
  \<open>widgets\<close> to the model declared as \<open>widget\<close>. The reverse methods appended to the
  methods of \<open>widget\<close> carry the formatted name \<open>Gadget\<close>, the key of the result map, not the
  declared name \<open>gadget\<close>.
\<close>

theorem C1_reverse_name_has_formatted_model_name:
  "methodNamesOf (describeModels exApp defaultOptions) 1 =
     Inr [''find'', ''::get::Gadget::widgets'', ''::findById::Gadget::widgets'',
          ''::delete::Gadget::widgets'']"
  by code_simp

section \<open>Lookups after updates of the heap\<close>

text \<open>A lookup depends on the prototype links, the own flag of the property and the field itself.\<close>

lemma lookup_cong:
  "(\<And>b. b \<le> a \<Longrightarrow> proto (h' ! b) = proto (h ! b) \<and> (t \<in> own (h' ! b) \<longleftrightarrow> t \<in> own (h ! b)) \<and>
                  f (h' ! b) = f (h ! b)) \<Longrightarrow>
   lookup f t h' a = lookup f t h a"
proof (induction a rule: less_induct)
  case (less a)
  have pa: "proto (h' ! a) = proto (h ! a)" "t \<in> own (h' ! a) \<longleftrightarrow> t \<in> own (h ! a)"
    "f (h' ! a) = f (h ! a)"
    using less.prems[of a] by auto
  show ?case
  proof (cases "proto (h ! a)")
    case None
    then show ?thesis using pa by (subst lookup.simps, subst (2) lookup.simps) simp
  next
    case (Some p)
    show ?thesis
    proof (cases "t \<in> own (h ! a) \<or> \<not> p < a")
      case True
      then show ?thesis using Some pa by (subst lookup.simps, subst (2) lookup.simps) auto
    next
      case False
      then have "lookup f t h' p = lookup f t h p" using less.IH[of p] less.prems by auto
      then show ?thesis using Some False pa by (subst lookup.simps, subst (2) lookup.simps) simp
    qed
  qed
qed

lemma owner_own: "t \<in> own (h ! a) \<Longrightarrow> owner t h a = a"
  by (subst owner.simps) (simp split: option.splits)

lemma length_assign: "length (assign t upd h a) = length h"
  by (simp add: assign_def)

lemma nth_update_any: "h[i := x] ! j = (if i = j \<and> i < length h then x else h ! j)"
  by (cases "i < length h") (auto simp: list_update_beyond)

section \<open>Properties of method augmentation\<close>

text \<open>What the steps leave alone.\<close>

lemma findResourceParams_frame:
  "length (findResourceParams a x h) = length h"
  "proto (findResourceParams a x h ! b) = proto (h ! b)"
  "m_accepts (findResourceParams a x h ! b) = m_accepts (h ! b)"
  "m_isStatic (findResourceParams a x h ! b) = m_isStatic (h ! b)"
  "m_restClass_ctor (findResourceParams a x h ! b) = m_restClass_ctor (h ! b)"
  "m_name (findResourceParams a x h ! b) = m_name (h ! b)"
  "m_isReturningArray (findResourceParams a x h ! b) = m_isReturningArray (h ! b)"
  "b \<noteq> a \<Longrightarrow> own (findResourceParams a x h ! b) = own (h ! b)"
  "t \<noteq> PResourceParams \<Longrightarrow> t \<noteq> PHasResourceParams \<Longrightarrow>
     t \<in> own (findResourceParams a x h ! b) \<longleftrightarrow> t \<in> own (h ! b)"
  "t \<in> own (h ! b) \<Longrightarrow> t \<in> own (findResourceParams a x h ! b)"
  by (auto simp: findResourceParams_def assign_def Let_def nth_update_any
           split: option.splits if_splits)

lemma fold_findResourceParams_frame:
  "length (fold (findResourceParams a) xs h) = length h"
  "proto (fold (findResourceParams a) xs h ! b) = proto (h ! b)"
  "m_accepts (fold (findResourceParams a) xs h ! b) = m_accepts (h ! b)"
  "m_isStatic (fold (findResourceParams a) xs h ! b) = m_isStatic (h ! b)"
  "m_restClass_ctor (fold (findResourceParams a) xs h ! b) = m_restClass_ctor (h ! b)"
  "m_name (fold (findResourceParams a) xs h ! b) = m_name (h ! b)"
  "m_isReturningArray (fold (findResourceParams a) xs h ! b) = m_isReturningArray (h ! b)"
  "b \<noteq> a \<Longrightarrow> own (fold (findResourceParams a) xs h ! b) = own (h ! b)"
  "t \<noteq> PResourceParams \<Longrightarrow> t \<noteq> PHasResourceParams \<Longrightarrow>
     t \<in> own (fold (findResourceParams a) xs h ! b) \<longleftrightarrow> t \<in> own (h ! b)"
  "t \<in> own (h ! b) \<Longrightarrow> t \<in> own (fold (findResourceParams a) xs h ! b)"
  by (induction xs arbitrary: h; simp add: findResourceParams_frame)+

lemma fixArgs_skip:
  "m_restClass_ctor (h ! a) = None \<or> m_isStatic (h ! a) \<Longrightarrow> fixArgsOfPrototypeMethods a h = h"
  by (auto simp: fixArgsOfPrototypeMethods_def split: option.splits)

lemma fixArgs_frame:
  "length (fixArgsOfPrototypeMethods a h) = length h"
  "proto (fixArgsOfPrototypeMethods a h ! b) = proto (h ! b)"
  "m_isStatic (fixArgsOfPrototypeMethods a h ! b) = m_isStatic (h ! b)"
  "m_restClass_ctor (fixArgsOfPrototypeMethods a h ! b) = m_restClass_ctor (h ! b)"
  "m_name (fixArgsOfPrototypeMethods a h ! b) = m_name (h ! b)"
  "m_isReturningArray (fixArgsOfPrototypeMethods a h ! b) = m_isReturningArray (h ! b)"
  "b \<noteq> a \<Longrightarrow> own (fixArgsOfPrototypeMethods a h ! b) = own (h ! b)"
  "b \<noteq> a \<Longrightarrow> m_accepts (fixArgsOfPrototypeMethods a h ! b) = m_accepts (h ! b)"
  by (auto simp: fixArgsOfPrototypeMethods_def Let_def fold_findResourceParams_frame assign_def
                 nth_update_any
           split: option.splits)

lemma fixArgs_own_mono:
  "t \<in> own (h ! b) \<Longrightarrow> t \<in> own (fixArgsOfPrototypeMethods a h ! b)"
  by (auto simp: fixArgsOfPrototypeMethods_def Let_def assign_def nth_update_any
           intro!: fold_findResourceParams_frame(10)
           split: option.splits)

lemma fixArgs_accepts:
  assumes "a < length h" and "m_restClass_ctor (h ! a) = Some ct" and "\<not> m_isStatic (h ! a)"
  shows "m_accepts (fixArgsOfPrototypeMethods a h ! a) = ctor_accepts ct @ lookup m_accepts PAccepts h a"
    and "PAccepts \<in> own (fixArgsOfPrototypeMethods a h ! a)"
  using assms
  by (auto simp: fixArgsOfPrototypeMethods_def Let_def fold_findResourceParams_frame assign_def
           intro!: fold_findResourceParams_frame(10))

lemma fixDescription_frame:
  "length (fixDescription a h) = length h"
  "proto (fixDescription a h ! b) = proto (h ! b)"
  "m_accepts (fixDescription a h ! b) = m_accepts (h ! b)"
  "m_name (fixDescription a h ! b) = m_name (h ! b)"
  "m_isReturningArray (fixDescription a h ! b) = m_isReturningArray (h ! b)"
  "m_resourceParams (fixDescription a h ! b) = m_resourceParams (h ! b)"
  "m_hasResourceParams (fixDescription a h ! b) = m_hasResourceParams (h ! b)"
  "t \<noteq> PDescription \<Longrightarrow> t \<in> own (fixDescription a h ! b) \<longleftrightarrow> t \<in> own (h ! b)"
  by (auto simp: fixDescription_def assign_def nth_update_any)

lemma fold_fixDescription_frame:
  "length (fold fixDescription bs h) = length h"
  "proto (fold fixDescription bs h ! b) = proto (h ! b)"
  "m_accepts (fold fixDescription bs h ! b) = m_accepts (h ! b)"
  "m_name (fold fixDescription bs h ! b) = m_name (h ! b)"
  "m_isReturningArray (fold fixDescription bs h ! b) = m_isReturningArray (h ! b)"
  "m_resourceParams (fold fixDescription bs h ! b) = m_resourceParams (h ! b)"
  "m_hasResourceParams (fold fixDescription bs h ! b) = m_hasResourceParams (h ! b)"
  "t \<noteq> PDescription \<Longrightarrow> t \<in> own (fold fixDescription bs h ! b) \<longleftrightarrow> t \<in> own (h ! b)"
  by (induction bs arbitrary: h; simp add: fixDescription_frame)+

lemma fold_fixArgs_frame:
  "length (fold fixArgsOfPrototypeMethods bs h) = length h"
  "proto (fold fixArgsOfPrototypeMethods bs h ! b) = proto (h ! b)"
  "m_isStatic (fold fixArgsOfPrototypeMethods bs h ! b) = m_isStatic (h ! b)"
  "m_restClass_ctor (fold fixArgsOfPrototypeMethods bs h ! b) = m_restClass_ctor (h ! b)"
  "m_name (fold fixArgsOfPrototypeMethods bs h ! b) = m_name (h ! b)"
  "m_isReturningArray (fold fixArgsOfPrototypeMethods bs h ! b) = m_isReturningArray (h ! b)"
  "t \<in> own (h ! b) \<Longrightarrow> t \<in> own (fold fixArgsOfPrototypeMethods bs h ! b)"
  by (induction bs arbitrary: h; simp add: fixArgs_frame fixArgs_own_mono)+

lemma fold_fixArgs_other:
  "b \<notin> set bs \<Longrightarrow> own (fold fixArgsOfPrototypeMethods bs h ! b) = own (h ! b)"
  "b \<notin> set bs \<Longrightarrow> m_accepts (fold fixArgsOfPrototypeMethods bs h ! b) = m_accepts (h ! b)"
  by (induction bs arbitrary: h; simp add: fixArgs_frame)+

lemma addCreateMany_one:
  assumes "filter (\<lambda>a. lookup m_name PName h a = ''create'') ms = [c]"
  shows "\<exists>h'. addCreateMany h ms = (h', ms @ [length h]) \<and> length h' = Suc (length h) \<and>
              (\<forall>b<length h. h' ! b = h ! b) \<and>
              h' ! length h = (h ! c)\<lparr>proto := Some c, own := {PName, PIsReturningArray},
                                 m_name := ''createMany'', m_isReturningArray := True\<rparr>"
  using assms
  by (auto simp: addCreateMany_def objectCreate_def assign_def Let_def nth_append insert_commute)

lemma addCreateMany_other:
  "length (filter (\<lambda>a. lookup m_name PName h a = ''create'') ms) \<noteq> 1 \<Longrightarrow>
   addCreateMany h ms = (h, ms)"
  by (simp add: addCreateMany_def)

lemma addCreateMany_shape:
  "\<exists>h1 ms. addCreateMany h ms0 = (h1, ms) \<and> length h \<le> length h1 \<and>
           (\<forall>b<length h. h1 ! b = h ! b) \<and> (ms = ms0 \<or> ms = ms0 @ [length h])"
proof (cases "length (filter (\<lambda>a. lookup m_name PName h a = ''create'') ms0) = 1")
  case True
  then obtain c where "filter (\<lambda>a. lookup m_name PName h a = ''create'') ms0 = [c]"
    by (auto simp: length_Suc_conv)
  from addCreateMany_one [OF this] show ?thesis by auto
next
  case False
  then show ?thesis using addCreateMany_other by auto
qed

text \<open>
  The clone of a \<open>create\<close> method that is static, or whose class has no constructor, at
  the end of the augmentation.
\<close>

lemma augmentMethods_createMany:
  assumes "filter (\<lambda>a. lookup m_name PName h a = ''create'') ms = [c]"
    and "\<forall>a\<in>set ms. a < length h"
    and "m_isStatic (h ! c) \<or> m_restClass_ctor (h ! c) = None"
  shows "\<exists>h'. augmentMethods h ms = (h', ms @ [length h]) \<and>
              lookup m_name PName h' (length h) = ''createMany'' \<and>
              lookup m_isReturningArray PIsReturningArray h' (length h) \<and>
              lookup m_accepts PAccepts h' (length h) = lookup m_accepts PAccepts h' c"
proof -
  let ?n = "length h"
  from addCreateMany_one [OF assms(1)] obtain h1 where
    h1: "addCreateMany h ms = (h1, ms @ [?n])" "length h1 = Suc ?n"
    and cl: "h1 ! ?n = (h ! c)\<lparr>proto := Some c, own := {PName, PIsReturningArray},
                               m_name := ''createMany'', m_isReturningArray := True\<rparr>"
    by blast
  have "c \<in> set (filter (\<lambda>a. lookup m_name PName h a = ''create'') ms)"
    using assms(1) by simp
  then have c: "c < ?n" using assms(2) by simp
  have n: "?n \<notin> set ms" using assms(2) by auto
  define g where "g = fold fixArgsOfPrototypeMethods ms h1"
  define h3 where "h3 = fold fixDescription (ms @ [?n]) g"
  have gs: "m_isStatic (g ! ?n) = m_isStatic (h ! c)"
    "m_restClass_ctor (g ! ?n) = m_restClass_ctor (h ! c)"
    by (simp_all add: g_def fold_fixArgs_frame cl)
  then have skip: "fixArgsOfPrototypeMethods ?n g = g"
    using assms(3) by (intro fixArgs_skip) auto
  have aug: "augmentMethods h ms = (h3, ms @ [?n])"
    by (simp add: augmentMethods_def h1 Let_def g_def [symmetric] skip h3_def)
  have go: "own (g ! ?n) = {PName, PIsReturningArray}"
    using n by (simp add: g_def fold_fixArgs_other cl)
  have gp: "proto (g ! ?n) = Some c" "m_name (g ! ?n) = ''createMany''"
    "m_isReturningArray (g ! ?n)"
    by (simp_all add: g_def fold_fixArgs_frame cl)
  have p3: "proto (h3 ! ?n) = Some c" "m_name (h3 ! ?n) = ''createMany''"
    "m_isReturningArray (h3 ! ?n)"
    unfolding h3_def by (simp_all only: fold_fixDescription_frame gp)
  have o3: "PName \<in> own (h3 ! ?n)" "PIsReturningArray \<in> own (h3 ! ?n)"
    "PAccepts \<notin> own (h3 ! ?n)"
    unfolding h3_def using go by (simp_all add: fold_fixDescription_frame(8) del: fold_append)
  have "lookup m_name PName h3 ?n = ''createMany''"
    using lookup_own [OF o3(1), of m_name] p3(2) by simp
  moreover have "lookup m_isReturningArray PIsReturningArray h3 ?n"
    using lookup_own [OF o3(2), of m_isReturningArray] p3(3) by simp
  moreover have "lookup m_accepts PAccepts h3 ?n = lookup m_accepts PAccepts h3 c"
    using lookup_inherit [OF p3(1) o3(3) c] .
  ultimately show ?thesis using aug by blast
qed

text \<open>The parameters of a method object without prototype, after the first loop.\<close>

lemma fold_fixArgs_accepts_root:
  assumes "distinct bs" and "a \<in> set bs" and "a < length h" and "proto (h ! a) = None"
  shows "m_accepts (fold fixArgsOfPrototypeMethods bs h ! a) =
           (case m_restClass_ctor (h ! a) of
              None \<Rightarrow> m_accepts (h ! a)
            | Some ct \<Rightarrow> if m_isStatic (h ! a) then m_accepts (h ! a)
                         else ctor_accepts ct @ m_accepts (h ! a))"
  using assms
proof (induction bs arbitrary: h)
  case Nil
  then show ?case by simp
next
  case (Cons b bs)
  show ?case
  proof (cases "b = a")
    case True
    then have nin: "a \<notin> set bs" using Cons.prems(1) by simp
    have "m_accepts (fold fixArgsOfPrototypeMethods (b # bs) h ! a)
            = m_accepts (fixArgsOfPrototypeMethods a h ! a)"
      using True nin by (simp add: fold_fixArgs_other)
    also have "\<dots> = (case m_restClass_ctor (h ! a) of
              None \<Rightarrow> m_accepts (h ! a)
            | Some ct \<Rightarrow> if m_isStatic (h ! a) then m_accepts (h ! a)
                         else ctor_accepts ct @ m_accepts (h ! a))"
    proof (cases "m_restClass_ctor (h ! a) = None \<or> m_isStatic (h ! a)")
      case True
      then show ?thesis using fixArgs_skip [OF True] by (auto split: option.splits)
    next
      case False
      then obtain ct where ct: "m_restClass_ctor (h ! a) = Some ct" and ns: "\<not> m_isStatic (h ! a)"
        by auto
      show ?thesis
        using fixArgs_accepts(1) [OF Cons.prems(3) ct ns] ct ns
          lookup_root [OF Cons.prems(4), of m_accepts PAccepts]
        by simp
    qed
    finally show ?thesis .
  next
    case False
    then have mem: "a \<in> set bs" using Cons.prems(2) by simp
    have d: "distinct bs" using Cons.prems(1) by simp
    let ?h = "fixArgsOfPrototypeMethods b h"
    have len: "a < length ?h" using Cons.prems(3) by (simp add: fixArgs_frame)
    have pr: "proto (?h ! a) = None" using Cons.prems(4) by (simp add: fixArgs_frame)
    have same: "m_accepts (?h ! a) = m_accepts (h ! a)"
      "m_isStatic (?h ! a) = m_isStatic (h ! a)"
      "m_restClass_ctor (?h ! a) = m_restClass_ctor (h ! a)"
      using False by (simp_all add: fixArgs_frame)
    have "m_accepts (fold fixArgsOfPrototypeMethods bs ?h ! a) =
           (case m_restClass_ctor (?h ! a) of
              None \<Rightarrow> m_accepts (?h ! a)
            | Some ct \<Rightarrow> if m_isStatic (?h ! a) then m_accepts (?h ! a)
                         else ctor_accepts ct @ m_accepts (?h ! a))"
      by (rule Cons.IH [OF d mem len pr])
    then show ?thesis unfolding same by simp
  qed
qed

lemma augmentMethods_accepts_root:
  assumes "augmentMethods h ms0 = (h', ms)" and "distinct ms0"
    and "\<forall>a\<in>set ms0. a < length h \<and> proto (h ! a) = None" and "a \<in> set ms0"
  shows "lookup m_accepts PAccepts h' a =
           (case m_restClass_ctor (h ! a) of
              None \<Rightarrow> m_accepts (h ! a)
            | Some ct \<Rightarrow> if m_isStatic (h ! a) then m_accepts (h ! a)
                         else ctor_accepts ct @ m_accepts (h ! a))"
proof -
  from addCreateMany_shape [of h ms0] obtain h1 ms1 where
    a1: "addCreateMany h ms0 = (h1, ms1)" and l1: "length h \<le> length h1"
    and e1: "\<forall>b<length h. h1 ! b = h ! b" and m1: "ms1 = ms0 \<or> ms1 = ms0 @ [length h]"
    by blast
  have al: "a < length h" and ap: "proto (h ! a) = None" using assms(3,4) by auto
  have ha: "h1 ! a = h ! a" using e1 al by simp
  define g where "g = fold fixArgsOfPrototypeMethods ms0 h1"
  have h': "h' = fold fixDescription ms1 (fold fixArgsOfPrototypeMethods ms1 h1)"
    using assms(1) a1 by (auto simp: augmentMethods_def Let_def)
  have ga: "m_accepts (g ! a) =
           (case m_restClass_ctor (h ! a) of
              None \<Rightarrow> m_accepts (h ! a)
            | Some ct \<Rightarrow> if m_isStatic (h ! a) then m_accepts (h ! a)
                         else ctor_accepts ct @ m_accepts (h ! a))"
  proof -
    have "a < length h1" "proto (h1 ! a) = None" using al l1 ap ha by simp_all
    from fold_fixArgs_accepts_root [OF assms(2,4) this]
    show ?thesis unfolding g_def ha .
  qed
  have "m_accepts (fold fixArgsOfPrototypeMethods ms1 h1 ! a) = m_accepts (g ! a)"
    using m1 al by (auto simp: g_def fixArgs_frame)
  then have acc: "m_accepts (h' ! a) = m_accepts (g ! a)"
    by (simp add: h' fold_fixDescription_frame)
  have "proto (h' ! a) = None"
    using ap ha by (simp add: h' fold_fixDescription_frame fold_fixArgs_frame)
  then show ?thesis using lookup_root [of h' a m_accepts PAccepts] acc ga by simp
qed

text \<open>The resource parameters of a method, one step of \<open>findResourceParams\<close> at a time.\<close>

lemma findResourceParams_resourceParams:
  assumes "a < length h"
  shows "lookup m_resourceParams PResourceParams (findResourceParams a x h) a =
           (if isResourceParam x
            then Some ((case lookup m_resourceParams PResourceParams h a of
                          None \<Rightarrow> [] | Some r \<Rightarrow> r) @ [x])
            else lookup m_resourceParams PResourceParams h a)"
    and "lookup m_hasResourceParams PHasResourceParams (findResourceParams a x h) a =
           (if isResourceParam x \<and> lookup m_resourceParams PResourceParams h a = None then True
            else lookup m_hasResourceParams PHasResourceParams h a)"
proof -
  let ?rp = "lookup m_resourceParams PResourceParams"
  let ?has = "lookup m_hasResourceParams PHasResourceParams"
  have both: "?rp (findResourceParams a x h) a =
           (if isResourceParam x
            then Some ((case ?rp h a of None \<Rightarrow> [] | Some r \<Rightarrow> r) @ [x])
            else ?rp h a) \<and>
         ?has (findResourceParams a x h) a =
           (if isResourceParam x \<and> ?rp h a = None then True else ?has h a)"
  proof (cases "isResourceParam x")
    case False
    then show ?thesis by (simp add: findResourceParams_def)
  next
    case True
    show ?thesis
    proof (cases "?rp h a")
      case None
      define h1 where "h1 = assign PHasResourceParams (\<lambda>m. m\<lparr>m_hasResourceParams := True\<rparr>)
                          (assign PResourceParams (\<lambda>m. m\<lparr>m_resourceParams := Some []\<rparr>) h a) a"
      have h1a: "h1 ! a = (h ! a)\<lparr>m_resourceParams := Some [], m_hasResourceParams := True,
                   own := insert PHasResourceParams (insert PResourceParams (own (h ! a)))\<rparr>"
        using assms by (simp add: h1_def assign_def)
      have len1: "a < length h1" using assms by (simp add: h1_def length_assign)
      have o1: "PResourceParams \<in> own (h1 ! a)" by (simp add: h1a)
      have l1: "?rp h1 a = Some []" using lookup_own [OF o1, of m_resourceParams] by (simp add: h1a)
      have w1: "owner PResourceParams h1 a = a" using owner_own [OF o1] .
      define h2 where "h2 = h1[a := (h1 ! a)\<lparr>m_resourceParams := Some [x]\<rparr>]"
      have res: "findResourceParams a x h = h2"
        using True None by (simp add: findResourceParams_def Let_def h1_def [symmetric] l1 w1 h2_def)
      have h2a: "h2 ! a = (h1 ! a)\<lparr>m_resourceParams := Some [x]\<rparr>"
        using len1 by (simp add: h2_def)
      have o2: "PResourceParams \<in> own (h2 ! a)" "PHasResourceParams \<in> own (h2 ! a)"
        by (simp_all add: h2a h1a)
      have "?rp h2 a = Some [x]"
        using lookup_own [OF o2(1), of m_resourceParams] by (simp add: h2a)
      moreover have "?has h2 a = True"
        using lookup_own [OF o2(2), of m_hasResourceParams] by (simp add: h2a h1a)
      ultimately show ?thesis using True None res by simp
    next
      case (Some r)
      define w where "w = owner PResourceParams h a"
      define h2 where "h2 = h[w := (h ! w)\<lparr>m_resourceParams := Some (r @ [x])\<rparr>]"
      have res: "findResourceParams a x h = h2"
        using True Some by (simp add: findResourceParams_def Let_def w_def h2_def)
      have wl: "w < length h" using owner_le [of PResourceParams h a] assms by (simp add: w_def)
      have same: "\<And>b. proto (h2 ! b) = proto (h ! b) \<and> own (h2 ! b) = own (h ! b) \<and>
                      m_hasResourceParams (h2 ! b) = m_hasResourceParams (h ! b)"
        by (simp add: h2_def nth_update_any)
      have "owner PResourceParams h2 a = w"
        unfolding w_def using same by (intro owner_cong) simp
      then have "?rp h2 a = m_resourceParams (h2 ! w)"
        using lookup_owner [of m_resourceParams PResourceParams h2 a] by simp
      then have "?rp h2 a = Some (r @ [x])" using wl by (simp add: h2_def)
      moreover have "?has h2 a = ?has h a"
        using same by (intro lookup_cong) simp
      ultimately show ?thesis using True Some res by simp
    qed
  qed
  show "?rp (findResourceParams a x h) a =
           (if isResourceParam x
            then Some ((case ?rp h a of None \<Rightarrow> [] | Some r \<Rightarrow> r) @ [x])
            else ?rp h a)"
    using both by blast
  show "?has (findResourceParams a x h) a =
           (if isResourceParam x \<and> ?rp h a = None then True else ?has h a)"
    using both by blast
qed

lemma fold_findResourceParams_resourceParams:
  assumes "a < length h"
  shows "lookup m_resourceParams PResourceParams (fold (findResourceParams a) xs h) a =
           (if filter isResourceParam xs = [] then lookup m_resourceParams PResourceParams h a
            else Some ((case lookup m_resourceParams PResourceParams h a of
                          None \<Rightarrow> [] | Some r \<Rightarrow> r) @ filter isResourceParam xs))"
  using assms
proof (induction xs arbitrary: h)
  case Nil
  then show ?case by simp
next
  case (Cons x xs)
  have len: "a < length (findResourceParams a x h)"
    using Cons.prems by (simp add: findResourceParams_frame)
  show ?case
    using Cons.IH [OF len] findResourceParams_resourceParams(1) [OF Cons.prems, of x]
    by (auto split: option.splits)
qed

lemma fold_findResourceParams_marked:
  assumes "a < length h"
    and "lookup m_resourceParams PResourceParams h a = None \<or>
         lookup m_hasResourceParams PHasResourceParams h a"
  shows "lookup m_resourceParams PResourceParams (fold (findResourceParams a) xs h) a = None \<or>
         lookup m_hasResourceParams PHasResourceParams (fold (findResourceParams a) xs h) a"
  using assms
proof (induction xs arbitrary: h)
  case Nil
  then show ?case by simp
next
  case (Cons x xs)
  have len: "a < length (findResourceParams a x h)"
    using Cons.prems by (simp add: findResourceParams_frame)
  have "lookup m_resourceParams PResourceParams (findResourceParams a x h) a = None \<or>
        lookup m_hasResourceParams PHasResourceParams (findResourceParams a x h) a"
    using findResourceParams_resourceParams [OF Cons.prems(1), of x] Cons.prems(2)
    by (auto split: if_splits)
  then show ?case using Cons.IH [OF len] by simp
qed

lemma fixArgs_resourceParams:
  assumes "a < length h" and "m_restClass_ctor (h ! a) = Some ct" and "\<not> m_isStatic (h ! a)"
    and "lookup m_resourceParams PResourceParams h a = None"
  shows "lookup m_resourceParams PResourceParams (fixArgsOfPrototypeMethods a h) a =
           (if filter isResourceParam (ctor_accepts ct @ lookup m_accepts PAccepts h a) = [] then None
            else Some (filter isResourceParam (ctor_accepts ct @ lookup m_accepts PAccepts h a)))"
    and "filter isResourceParam (ctor_accepts ct @ lookup m_accepts PAccepts h a) \<noteq> [] \<Longrightarrow>
         lookup m_hasResourceParams PHasResourceParams (fixArgsOfPrototypeMethods a h) a"
proof -
  let ?acc = "ctor_accepts ct @ lookup m_accepts PAccepts h a"
  define h1 where "h1 = assign PAccepts (\<lambda>m. m\<lparr>m_accepts := ?acc\<rparr>) h a"
  have res: "fixArgsOfPrototypeMethods a h = fold (findResourceParams a) ?acc h1"
    using assms(2,3) by (simp add: fixArgsOfPrototypeMethods_def Let_def h1_def)
  have len1: "a < length h1" using assms(1) by (simp add: h1_def length_assign)
  have same: "\<And>b. proto (h1 ! b) = proto (h ! b) \<and>
                  (PResourceParams \<in> own (h1 ! b) \<longleftrightarrow> PResourceParams \<in> own (h ! b)) \<and>
                  m_resourceParams (h1 ! b) = m_resourceParams (h ! b)"
    by (simp add: h1_def assign_def nth_update_any)
  have rp1: "lookup m_resourceParams PResourceParams h1 a = None"
    using lookup_cong [of a h1 h PResourceParams m_resourceParams] same assms(4) by simp
  show "lookup m_resourceParams PResourceParams (fixArgsOfPrototypeMethods a h) a =
           (if filter isResourceParam ?acc = [] then None else Some (filter isResourceParam ?acc))"
    using fold_findResourceParams_resourceParams [OF len1, of ?acc] rp1 res by simp
  assume ne: "filter isResourceParam ?acc \<noteq> []"
  have "lookup m_resourceParams PResourceParams (fold (findResourceParams a) ?acc h1) a \<noteq> None"
    using fold_findResourceParams_resourceParams [OF len1, of ?acc] ne by auto
  then show "lookup m_hasResourceParams PHasResourceParams (fixArgsOfPrototypeMethods a h) a"
    using fold_findResourceParams_marked [OF len1, of ?acc] rp1 res by auto
qed

section \<open>Method augmentation: the claims\<close>

lemma exApp_heap_facts:
  "\<forall>a\<in>set [0, 1, 2, 3, 4, 5]. a < length (heap exApp) \<and> proto (heap exApp ! a) = None"
  "filter (\<lambda>a. lookup m_name PName (heap exApp) a = ''create'') [0, 1, 2, 3, 4, 5] = [0]"
  "m_isStatic (heap exApp ! 0)"
  "lookup m_accepts PAccepts (heap exApp) 0 = [dataArg]"
  "length (filter (\<lambda>a. lookup m_name PName (heap exApp) a = ''create'') [6]) \<noteq> 1"
  "\<not> m_isStatic (heap exApp ! 2)"
  "m_restClass_ctor (heap exApp ! 2) = Some \<lparr>ctor_accepts = [idArg]\<rparr>"
  "m_accepts (heap exApp ! 2) = [fkArg]"
  "lookup m_accepts PAccepts (heap exApp) 2 = [fkArg]"
  "lookup m_resourceParams PResourceParams (heap exApp) 2 = None"
  by code_simp+

text \<open>
  C3. When exactly one method of the list is named \<open>create\<close>, the list gains one
  method, a clone of it named \<open>createMany\<close> that reports an array and has the
  parameters of \<open>create\<close>, which are as they were; for a \<open>create\<close> that is static (or
  whose class has no constructor) this is still so when the augmentation of the list
  is complete. With no method or several methods named \<open>create\<close>, the heap and the
  list are returned as they are.
\<close>

theorem C3_createMany:
  assumes "\<forall>a\<in>set ms. a < length h"
  shows "(filter (\<lambda>a. lookup m_name PName h a = ''create'') ms = [c] \<longrightarrow>
            (\<exists>h' cm. addCreateMany h ms = (h', ms @ [cm]) \<and> cm \<notin> set ms \<and>
               lookup m_name PName h' cm = ''createMany'' \<and>
               lookup m_isReturningArray PIsReturningArray h' cm \<and>
               lookup m_accepts PAccepts h' cm = lookup m_accepts PAccepts h' c \<and>
               lookup m_accepts PAccepts h' c = lookup m_accepts PAccepts h c)) \<and>
         (filter (\<lambda>a. lookup m_name PName h a = ''create'') ms = [c] \<and>
            (m_isStatic (h ! c) \<or> m_restClass_ctor (h ! c) = None) \<longrightarrow>
            (\<exists>h' cm. augmentMethods h ms = (h', ms @ [cm]) \<and> cm \<notin> set ms \<and>
               lookup m_name PName h' cm = ''createMany'' \<and>
               lookup m_isReturningArray PIsReturningArray h' cm \<and>
               lookup m_accepts PAccepts h' cm = lookup m_accepts PAccepts h' c)) \<and>
         (length (filter (\<lambda>a. lookup m_name PName h a = ''create'') ms) \<noteq> 1 \<longrightarrow>
            addCreateMany h ms = (h, ms) \<and> snd (augmentMethods h ms) = ms)"
proof (intro conjI impI)
  assume f: "filter (\<lambda>a. lookup m_name PName h a = ''create'') ms = [c]"
  let ?n = "length h"
  from addCreateMany_one [OF f] obtain h' where
    r: "addCreateMany h ms = (h', ms @ [?n])"
    and same: "\<forall>b<?n. h' ! b = h ! b"
    and cl: "h' ! ?n = (h ! c)\<lparr>proto := Some c, own := {PName, PIsReturningArray},
                               m_name := ''createMany'', m_isReturningArray := True\<rparr>"
    by blast
  have "c \<in> set (filter (\<lambda>a. lookup m_name PName h a = ''create'') ms)" using f by simp
  then have c: "c < ?n" using assms by simp
  have n: "?n \<notin> set ms" using assms by auto
  have o: "PName \<in> own (h' ! ?n)" "PIsReturningArray \<in> own (h' ! ?n)"
    "PAccepts \<notin> own (h' ! ?n)" "proto (h' ! ?n) = Some c"
    by (simp_all add: cl)
  have 1: "lookup m_name PName h' ?n = ''createMany''"
    using lookup_own [OF o(1), of m_name] by (simp add: cl)
  have 2: "lookup m_isReturningArray PIsReturningArray h' ?n"
    using lookup_own [OF o(2), of m_isReturningArray] by (simp add: cl)
  have 3: "lookup m_accepts PAccepts h' ?n = lookup m_accepts PAccepts h' c"
    using lookup_inherit [OF o(4) o(3) c] .
  have 4: "lookup m_accepts PAccepts h' c = lookup m_accepts PAccepts h c"
    using same c by (intro lookup_cong) simp
  show "\<exists>h' cm. addCreateMany h ms = (h', ms @ [cm]) \<and> cm \<notin> set ms \<and>
               lookup m_name PName h' cm = ''createMany'' \<and>
               lookup m_isReturningArray PIsReturningArray h' cm \<and>
               lookup m_accepts PAccepts h' cm = lookup m_accepts PAccepts h' c \<and>
               lookup m_accepts PAccepts h' c = lookup m_accepts PAccepts h c"
    using r n 1 2 3 4 by blast
next
  assume "filter (\<lambda>a. lookup m_name PName h a = ''create'') ms = [c] \<and>
            (m_isStatic (h ! c) \<or> m_restClass_ctor (h ! c) = None)"
  then have f: "filter (\<lambda>a. lookup m_name PName h a = ''create'') ms = [c]"
    and st: "m_isStatic (h ! c) \<or> m_restClass_ctor (h ! c) = None" by simp_all
  have n: "length h \<notin> set ms" using assms by auto
  from augmentMethods_createMany [OF f assms st] n
  show "\<exists>h' cm. augmentMethods h ms = (h', ms @ [cm]) \<and> cm \<notin> set ms \<and>
               lookup m_name PName h' cm = ''createMany'' \<and>
               lookup m_isReturningArray PIsReturningArray h' cm \<and>
               lookup m_accepts PAccepts h' cm = lookup m_accepts PAccepts h' c"
    by blast
next
  assume "length (filter (\<lambda>a. lookup m_name PName h a = ''create'') ms) \<noteq> 1"
  then show "addCreateMany h ms = (h, ms)" by (rule addCreateMany_other)
next
  assume "length (filter (\<lambda>a. lookup m_name PName h a = ''create'') ms) \<noteq> 1"
  then have "addCreateMany h ms = (h, ms)" by (rule addCreateMany_other)
  then show "snd (augmentMethods h ms) = ms" by (simp add: augmentMethods_def)
qed

theorem C3_createMany_witness:
  "(\<exists>h' cm. addCreateMany (heap exApp) [0, 1, 2, 3, 4, 5] = (h', [0, 1, 2, 3, 4, 5] @ [cm]) \<and>
      lookup m_name PName h' cm = ''createMany'' \<and>
      lookup m_isReturningArray PIsReturningArray h' cm \<and>
      lookup m_accepts PAccepts h' cm = [dataArg]) \<and>
   (\<exists>h' cm. augmentMethods (heap exApp) [0, 1, 2, 3, 4, 5] = (h', [0, 1, 2, 3, 4, 5] @ [cm]) \<and>
      lookup m_name PName h' cm = ''createMany'' \<and>
      lookup m_accepts PAccepts h' cm = lookup m_accepts PAccepts h' 0) \<and>
   addCreateMany (heap exApp) [6] = (heap exApp, [6])"
proof -
  have valid: "\<forall>a\<in>set [0, 1, 2, 3, 4, 5]. a < length (heap exApp)"
    using exApp_heap_facts(1) by simp
  have valid6: "\<forall>a\<in>set [6]. a < length (heap exApp)" by (simp add: exApp_def)
  note one = C3_createMany [OF valid, of 0]
  note none = C3_createMany [OF valid6, of 0]
  from one exApp_heap_facts(2) obtain h' cm where
    "addCreateMany (heap exApp) [0, 1, 2, 3, 4, 5] = (h', [0, 1, 2, 3, 4, 5] @ [cm])"
    "lookup m_name PName h' cm = ''createMany''"
    "lookup m_isReturningArray PIsReturningArray h' cm"
    "lookup m_accepts PAccepts h' cm = lookup m_accepts PAccepts h' 0"
    "lookup m_accepts PAccepts h' 0 = lookup m_accepts PAccepts (heap exApp) 0"
    by blast
  then have a: "\<exists>h' cm. addCreateMany (heap exApp) [0, 1, 2, 3, 4, 5] = (h', [0, 1, 2, 3, 4, 5] @ [cm]) \<and>
      lookup m_name PName h' cm = ''createMany'' \<and>
      lookup m_isReturningArray PIsReturningArray h' cm \<and>
      lookup m_accepts PAccepts h' cm = [dataArg]"
    using exApp_heap_facts(4) by (metis (no_types, lifting))
  have b: "\<exists>h' cm. augmentMethods (heap exApp) [0, 1, 2, 3, 4, 5] = (h', [0, 1, 2, 3, 4, 5] @ [cm]) \<and>
      lookup m_name PName h' cm = ''createMany'' \<and>
      lookup m_accepts PAccepts h' cm = lookup m_accepts PAccepts h' 0"
    using one exApp_heap_facts(2,3) by blast
  have c: "addCreateMany (heap exApp) [6] = (heap exApp, [6])"
    using none exApp_heap_facts(5) by blast
  show ?thesis using a b c by blast
qed

text \<open>
  C4. For the methods of a class as the registry gives them (each listed once, none a
  clone): after the augmentation, the parameters of an instance method whose class has
  a constructor are the parameters of the constructor followed by the method's own;
  for a method whose class has no constructor the parameters are as they were, and the
  step leaves the heap as it is.
\<close>

theorem C4_ctor_params_first:
  assumes "augmentMethods h ms0 = (h', ms)" and "distinct ms0"
    and "\<forall>a\<in>set ms0. a < length h \<and> proto (h ! a) = None" and "a \<in> set ms0"
  shows "(\<not> m_isStatic (h ! a) \<and> m_restClass_ctor (h ! a) = Some ct \<longrightarrow>
            lookup m_accepts PAccepts h' a = ctor_accepts ct @ m_accepts (h ! a)) \<and>
         (m_restClass_ctor (h ! a) = None \<longrightarrow>
            lookup m_accepts PAccepts h' a = m_accepts (h ! a) \<and>
            fixArgsOfPrototypeMethods a h = h)"
  using augmentMethods_accepts_root [OF assms] fixArgs_skip [of h a] by auto

lemma noCtorHeap_facts:
  "\<forall>a\<in>set [0]. a < length noCtorHeap \<and> proto (noCtorHeap ! a) = None"
  "m_restClass_ctor (noCtorHeap ! 0) = None"
  "m_accepts (noCtorHeap ! 0) = [fkArg]"
  by code_simp+

theorem C4_ctor_params_first_witness:
  "(\<exists>h' ms. augmentMethods (heap exApp) [0, 1, 2, 3, 4, 5] = (h', ms) \<and>
      lookup m_accepts PAccepts h' 2 = [idArg, fkArg]) \<and>
   (\<exists>h' ms. augmentMethods noCtorHeap [0] = (h', ms) \<and>
      lookup m_accepts PAccepts h' 0 = [fkArg])"
proof -
  obtain h1 ms1 where r1: "augmentMethods (heap exApp) [0, 1, 2, 3, 4, 5] = (h1, ms1)"
    by (cases "augmentMethods (heap exApp) [0, 1, 2, 3, 4, 5]")
  obtain h2 ms2 where r2: "augmentMethods noCtorHeap [0] = (h2, ms2)"
    by (cases "augmentMethods noCtorHeap [0]")
  have d1: "distinct [0::nat, 1, 2, 3, 4, 5]" and d2: "distinct [0::nat]" by simp_all
  have m1: "2 \<in> set [0::nat, 1, 2, 3, 4, 5]" and m2: "0 \<in> set [0::nat]" by simp_all
  have "lookup m_accepts PAccepts h1 2 = [idArg, fkArg]"
    using C4_ctor_params_first [OF r1 d1 exApp_heap_facts(1) m1, of "\<lparr>ctor_accepts = [idArg]\<rparr>"]
      exApp_heap_facts(6,7,8) by simp
  moreover have "lookup m_accepts PAccepts h2 0 = [fkArg]"
    using C4_ctor_params_first [OF r2 d2 noCtorHeap_facts(1) m2] noCtorHeap_facts(2,3) by simp
  ultimately show ?thesis using r1 r2 by blast
qed

text \<open>
  C7, as the code has it. \<open>fixArgsOfPrototypeMethods\<close> collects resource parameters for
  instance methods of a class with a constructor only: for such a method without
  resource parameters so far, its resource parameters become the parameters of its new
  list (the constructor's, then its own) that come from the path and are not named
  \<open>id\<close>, in that order, and the method is marked when there is one; a static method,
  and a method of a class without constructor, is left as it is.
\<close>

theorem C7_resource_params_of_instance_methods:
  assumes "a < length h"
  shows "(\<not> m_isStatic (h ! a) \<and> m_restClass_ctor (h ! a) = Some ct \<and>
            lookup m_resourceParams PResourceParams h a = None \<longrightarrow>
            lookup m_resourceParams PResourceParams (fixArgsOfPrototypeMethods a h) a =
              (if filter isResourceParam (ctor_accepts ct @ lookup m_accepts PAccepts h a) = []
               then None
               else Some (filter isResourceParam
                            (ctor_accepts ct @ lookup m_accepts PAccepts h a))) \<and>
            (filter isResourceParam (ctor_accepts ct @ lookup m_accepts PAccepts h a) \<noteq> [] \<longrightarrow>
               lookup m_hasResourceParams PHasResourceParams (fixArgsOfPrototypeMethods a h) a)) \<and>
         (m_isStatic (h ! a) \<or> m_restClass_ctor (h ! a) = None \<longrightarrow>
            fixArgsOfPrototypeMethods a h = h) \<and>
         (isResourceParam x \<longleftrightarrow>
            (\<exists>ht. http x = Some ht \<and> source ht = Some ''path'') \<and> arg x \<noteq> ''id'')"
proof (intro conjI impI)
  assume "\<not> m_isStatic (h ! a) \<and> m_restClass_ctor (h ! a) = Some ct \<and>
            lookup m_resourceParams PResourceParams h a = None"
  then have p: "m_restClass_ctor (h ! a) = Some ct" "\<not> m_isStatic (h ! a)"
    "lookup m_resourceParams PResourceParams h a = None" by simp_all
  show "lookup m_resourceParams PResourceParams (fixArgsOfPrototypeMethods a h) a =
              (if filter isResourceParam (ctor_accepts ct @ lookup m_accepts PAccepts h a) = []
               then None
               else Some (filter isResourceParam
                            (ctor_accepts ct @ lookup m_accepts PAccepts h a)))"
    using fixArgs_resourceParams(1) [OF assms p] .
  assume "filter isResourceParam (ctor_accepts ct @ lookup m_accepts PAccepts h a) \<noteq> []"
  then show "lookup m_hasResourceParams PHasResourceParams (fixArgsOfPrototypeMethods a h) a"
    using fixArgs_resourceParams(2) [OF assms p] by simp
next
  assume "m_isStatic (h ! a) \<or> m_restClass_ctor (h ! a) = None"
  then show "fixArgsOfPrototypeMethods a h = h" using fixArgs_skip [of h a] by auto
next
  show "isResourceParam x \<longleftrightarrow>
            (\<exists>ht. http x = Some ht \<and> source ht = Some ''path'') \<and> arg x \<noteq> ''id''"
    by (auto simp: isResourceParam_def split: option.splits)
qed

lemma exApp_resource_filter:
  "filter isResourceParam ([idArg] @ [fkArg]) = [fkArg]"
  by code_simp

theorem C7_resource_params_of_instance_methods_witness:
  "lookup m_resourceParams PResourceParams (fixArgsOfPrototypeMethods 2 (heap exApp)) 2
     = Some [fkArg] \<and>
   lookup m_hasResourceParams PHasResourceParams (fixArgsOfPrototypeMethods 2 (heap exApp)) 2 \<and>
   m_isStatic (heap exApp ! 0) \<and>
   fixArgsOfPrototypeMethods 0 (heap exApp) = heap exApp \<and>
   isResourceParam fkArg \<and> \<not> isResourceParam idArg"
proof -
  have l2: "2 < length (heap exApp)" and l0: "0 < length (heap exApp)"
    by (simp_all add: exApp_def)
  note two = C7_resource_params_of_instance_methods [OF l2, of "\<lparr>ctor_accepts = [idArg]\<rparr>" fkArg]
  note zero = C7_resource_params_of_instance_methods [OF l0, of _ idArg]
  have f: "filter isResourceParam
             (ctor_accepts \<lparr>ctor_accepts = [idArg]\<rparr> @ lookup m_accepts PAccepts (heap exApp) 2)
           = [fkArg]"
    using exApp_resource_filter by (simp add: exApp_heap_facts(9))
  have pre: "\<not> m_isStatic (heap exApp ! 2) \<and>
             m_restClass_ctor (heap exApp ! 2) = Some \<lparr>ctor_accepts = [idArg]\<rparr> \<and>
             lookup m_resourceParams PResourceParams (heap exApp) 2 = None"
    using exApp_heap_facts(6,7,10) by simp
  have a: "lookup m_resourceParams PResourceParams (fixArgsOfPrototypeMethods 2 (heap exApp)) 2
             = Some [fkArg]"
    using two pre f by simp
  have b: "lookup m_hasResourceParams PHasResourceParams
             (fixArgsOfPrototypeMethods 2 (heap exApp)) 2"
    using two pre f by simp
  have c: "fixArgsOfPrototypeMethods 0 (heap exApp) = heap exApp"
    using zero exApp_heap_facts(3) by blast
  have d: "isResourceParam fkArg"
    using two by (simp add: fkArg_def)
  have e: "\<not> isResourceParam idArg"
    using zero by (simp add: idArg_def)
  show ?thesis using a b c d e exApp_heap_facts(3) by simp
qed

text \<open>
  C7 as stated fails for static methods: the static method of the example has the
  parameter \<open>fk\<close>, which comes from the path and is not named \<open>id\<close>, and after the
  augmentation it has no resource parameters and is not marked.
\<close>

theorem C7_counterexample:
  "m_isStatic (staticHeap ! 0) \<and>
   lookup m_accepts PAccepts (fst (augmentMethods staticHeap [0])) 0 = [fkArg] \<and>
   isResourceParam fkArg \<and>
   lookup m_resourceParams PResourceParams (fst (augmentMethods staticHeap [0])) 0 = None \<and>
   \<not> lookup m_hasResourceParams PHasResourceParams (fst (augmentMethods staticHeap [0])) 0"
  by code_simp

section \<open>Classes that are not models\<close>

text \<open>
  A class with a name that has no constructor entry, whose constructor function has
  settings and whose formatted name is not in the list of ignored models, is skipped:
  the error message is written, the result map and the heap are as they were, and the
  loop goes on with the classes that follow.
\<close>

lemma describeClass_not_a_model:
  assumes "i < length (classes s)"
    and "getFormattedModelName (c_name (classes s ! i)) opts = Inr name"
    and "c_settings (classes s ! i) = Some settings"
    and "c_ctor (classes s ! i) = None"
    and "name \<notin> set (modelsToIgnore opts)"
  shows "\<exists>s'. describeClass opts i (s, result) = Inr (s', result) \<and>
              console s' = console s @
                [(Err, ''Skipping '' @ name @ '' as it is not a {{LoopBack}} model'')] \<and>
              heap s' = heap s \<and> length (classes s') = length (classes s) \<and>
              forEachE (describeClass opts) (i # rest) (s, result)
                = forEachE (describeClass opts) rest (s', result)"
  using assms
  by (simp add: describeClass_def Let_def logTo_def updClass_def)

lemma describeClass_without_settings:
  assumes "getFormattedModelName (c_name (classes s ! i)) opts = Inr name"
    and "c_settings (classes s ! i) = None"
  shows "describeClass opts i (s, result) = Inl TypeError"
  using assms by (simp add: describeClass_def)

text \<open>
  C8, on a class that is not a model and whose constructor function has no settings
  (\<open>bareApp\<close>): reading the description of the settings raises before the test for
  the constructor entry is reached, so the class is not skipped; the exception ends
  the collection of the models and reaches the caller of the generator. The same class
  with settings (\<open>ghostApp\<close>) is skipped with the error message.
\<close>

theorem C8_class_without_settings_raises:
  "c_ctor (classes bareApp ! 0) = None \<and>
   c_settings (classes bareApp ! 0) = None \<and>
   errorOf (describeClass defaultOptions 0 (bareApp, [])) = Some TypeError \<and>
   errorOf (describeModels bareApp defaultOptions) = Some TypeError \<and>
   errorOf (generateServices bareApp defaultOptions) = Some TypeError \<and>
   c_ctor (classes ghostApp ! 0) = None \<and>
   consoleOf (describeClass defaultOptions 0 (ghostApp, []))
     = Inr [(Err, ''Skipping Ghost as it is not a {{LoopBack}} model'')] \<and>
   resultOf (describeClass defaultOptions 0 (ghostApp, [])) = Inr []"
  by code_simp

end
